theory Spec2Isabelle
  imports Complex_Main "HOL-Library.Sublist" "HOL-Library.Multiset"
begin

section \<open>Cafe Finder: a shallow embedding of script.js\<close>

text \<open>
  The script is one closure over module-level variables, a map widget, the DOM, the
  network and \<^verbatim>\<open>localStorage\<close>. The embedding keeps the source's function names.
  Module-level variables and the parts of the page the functions write are fields of one
  state record that every handler takes and returns; what the network and the
  geolocation service answer is an input of the handler that asks.

  A number that the script reads (a coordinate, a rating, a radius) is modelled by the
  real number it denotes; a number that the script computes is of type \<open>jsnum\<close>, which
  has \<^verbatim>\<open>NaN\<close> and the infinities, and the floating-point operations that compute it are a
  parameter of the model (record \<open>arith\<close>). Strings are byte strings, so case folding is
  the ASCII one.
\<close>

subsection \<open>Numbers\<close>

datatype jsnum = Fin real | NaN | PosInf | NegInf

text \<open>Subtraction of two numbers, with the IEEE rules for the non-finite operands.\<close>

fun js_minus :: "jsnum \<Rightarrow> jsnum \<Rightarrow> jsnum" where
  "js_minus (Fin a) (Fin b) = Fin (a - b)"
| "js_minus NaN _ = NaN"
| "js_minus _ NaN = NaN"
| "js_minus PosInf PosInf = NaN"
| "js_minus NegInf NegInf = NaN"
| "js_minus PosInf _ = PosInf"
| "js_minus NegInf _ = NegInf"
| "js_minus (Fin a) PosInf = NegInf"
| "js_minus (Fin a) NegInf = PosInf"

text \<open>\<^verbatim>\<open>v > 0\<close> and \<^verbatim>\<open>a <= b\<close>; every comparison with \<^verbatim>\<open>NaN\<close> is false.\<close>

fun js_positive :: "jsnum \<Rightarrow> bool" where
  "js_positive (Fin a) = (0 < a)"
| "js_positive PosInf = True"
| "js_positive _ = False"


text \<open>\<^verbatim>\<open>x ?? d\<close>: the default is taken only for an absent (undefined or null) operand.\<close>

definition nullish :: "'a option \<Rightarrow> 'a \<Rightarrow> 'a" where
  "nullish x d = (case x of None \<Rightarrow> d | Some v \<Rightarrow> v)"

text \<open>\<^verbatim>\<open>Math.round\<close>: the nearest integer, a half rounded up.\<close>

definition Math_round :: "real \<Rightarrow> int" where
  "Math_round x = \<lfloor>x + 1 / 2\<rfloor>"

subsection \<open>Floating-point arithmetic\<close>

text \<open>
  The floating-point operations that \<^verbatim>\<open>toKm\<close> and \<^verbatim>\<open>haversineDistance\<close> use, as a
  parameter: the four operations, \<^verbatim>\<open>x ** n\<close> for a literal \<^verbatim>\<open>n\<close>, the functions of \<^verbatim>\<open>Math\<close>
  and the constant \<^verbatim>\<open>Math.PI\<close>. Each takes and gives numbers of type \<open>jsnum\<close>, so a result
  may be \<^verbatim>\<open>NaN\<close> or infinite. The embedding assumes nothing about them: binary64 with the
  platform's \<^verbatim>\<open>Math\<close> is one instance, the arithmetic of the real numbers another.
\<close>

record arith =
  ar_add :: "jsnum \<Rightarrow> jsnum \<Rightarrow> jsnum"
  ar_sub :: "jsnum \<Rightarrow> jsnum \<Rightarrow> jsnum"
  ar_mul :: "jsnum \<Rightarrow> jsnum \<Rightarrow> jsnum"
  ar_div :: "jsnum \<Rightarrow> jsnum \<Rightarrow> jsnum"
  ar_pow :: "jsnum \<Rightarrow> nat \<Rightarrow> jsnum"
  Math_sin :: "jsnum \<Rightarrow> jsnum"
  Math_cos :: "jsnum \<Rightarrow> jsnum"
  Math_sqrt :: "jsnum \<Rightarrow> jsnum"
  Math_atan2 :: "jsnum \<Rightarrow> jsnum \<Rightarrow> jsnum"
  Math_round_num :: "jsnum \<Rightarrow> jsnum"
  Math_PI :: jsnum

text \<open>
  The arithmetic of the real numbers: every operation is exact, and a result outside the
  real numbers (an operand that is no finite number, a division by 0, the square root of a
  negative number) is \<^verbatim>\<open>NaN\<close>. \<open>atan2_real y x\<close> is the angle of the point \<open>(x, y)\<close> in
  \<open>(-\<pi>, \<pi>]\<close>, and 0 at the origin.
\<close>

definition atan2_real :: "real \<Rightarrow> real \<Rightarrow> real" where
  "atan2_real y x =
     (if 0 < x then arctan (y / x)
      else if x < 0 then (if 0 \<le> y then arctan (y / x) + pi else arctan (y / x) - pi)
      else if 0 < y then pi / 2
      else if y < 0 then - (pi / 2)
      else 0)"

fun lift1 :: "(real \<Rightarrow> real) \<Rightarrow> jsnum \<Rightarrow> jsnum" where
  "lift1 f (Fin x) = Fin (f x)"
| "lift1 f _ = NaN"

fun lift2 :: "(real \<Rightarrow> real \<Rightarrow> real) \<Rightarrow> jsnum \<Rightarrow> jsnum \<Rightarrow> jsnum" where
  "lift2 f (Fin x) (Fin y) = Fin (f x y)"
| "lift2 f _ _ = NaN"

fun exact_div :: "jsnum \<Rightarrow> jsnum \<Rightarrow> jsnum" where
  "exact_div (Fin x) (Fin y) = (if y = 0 then NaN else Fin (x / y))"
| "exact_div _ _ = NaN"

fun exact_sqrt :: "jsnum \<Rightarrow> jsnum" where
  "exact_sqrt (Fin x) = (if x < 0 then NaN else Fin (sqrt x))"
| "exact_sqrt _ = NaN"

definition exactArith :: arith where
  "exactArith =
     \<lparr>ar_add = lift2 (+), ar_sub = lift2 (-), ar_mul = lift2 (*), ar_div = exact_div,
      ar_pow = (\<lambda>x n. lift1 (\<lambda>r. r ^ n) x),
      Math_sin = lift1 sin, Math_cos = lift1 cos, Math_sqrt = exact_sqrt,
      Math_atan2 = lift2 atan2_real,
      Math_round_num = lift1 (\<lambda>r. real_of_int (Math_round r)),
      Math_PI = Fin pi\<rparr>"

subsection \<open>Utilities\<close>

definition toKm :: "arith \<Rightarrow> jsnum \<Rightarrow> jsnum" where
  "toKm ar meters =
     ar_div ar (Math_round_num ar (ar_mul ar (ar_div ar meters (Fin 1000)) (Fin 100))) (Fin 100)"

text \<open>
  \<^verbatim>\<open>haversineDistance\<close> for four numbers, operation by operation as the source writes
  them; \<open>toRad\<close> is its local function.
\<close>

definition toRad :: "arith \<Rightarrow> jsnum \<Rightarrow> jsnum" where
  "toRad ar x = ar_div ar (ar_mul ar x (Math_PI ar)) (Fin 180)"

definition haversineDistance :: "arith \<Rightarrow> real \<Rightarrow> real \<Rightarrow> real \<Rightarrow> real \<Rightarrow> jsnum" where
  "haversineDistance ar lat1 lon1 lat2 lon2 =
     (let R = Fin 6371000;
          phi1 = toRad ar (Fin lat1);
          phi2 = toRad ar (Fin lat2);
          dphi = toRad ar (ar_sub ar (Fin lat2) (Fin lat1));
          dlam = toRad ar (ar_sub ar (Fin lon2) (Fin lon1));
          a = ar_add ar
                (ar_pow ar (Math_sin ar (ar_div ar dphi (Fin 2))) 2)
                (ar_mul ar (ar_mul ar (Math_cos ar phi1) (Math_cos ar phi2))
                   (ar_pow ar (Math_sin ar (ar_div ar dlam (Fin 2))) 2));
          c = ar_mul ar (Fin 2)
                (Math_atan2 ar (Math_sqrt ar a) (Math_sqrt ar (ar_sub ar (Fin 1) a)))
      in ar_mul ar R c)"

subsection \<open>Cafe records\<close>

text \<open>
  The object built by \<^verbatim>\<open>fetchOverpassCafes\<close> and \<^verbatim>\<open>loadFallbackCafes\<close>. A field that
  the source may leave \<^verbatim>\<open>undefined\<close> is an option. The field \<^verbatim>\<open>id\<close> is named \<open>cid\<close>.
\<close>

record cafe =
  cid :: string
  name :: "string option"
  area :: string
  address :: string
  contact :: string
  lat :: "real option"
  lng :: "real option"
  rating :: "real option"
  distanceMeters :: "jsnum option"

subsection \<open>Distances and ordering\<close>

text \<open>
  \<^verbatim>\<open>haversineDistance\<close> called with the coordinates of a record. An \<^verbatim>\<open>undefined\<close>
  coordinate is \<^verbatim>\<open>NaN\<close> as a number, and every operation of \<^verbatim>\<open>haversineDistance\<close> gives
  \<^verbatim>\<open>NaN\<close> for a \<^verbatim>\<open>NaN\<close> operand, so the result is \<^verbatim>\<open>NaN\<close> whatever the arithmetic.
\<close>

definition distanceTo :: "arith \<Rightarrow> real \<Rightarrow> real \<Rightarrow> cafe \<Rightarrow> jsnum" where
  "distanceTo ar originLat originLng c =
     (case (lat c, lng c) of
        (Some la, Some lo) \<Rightarrow> haversineDistance ar originLat originLng la lo
      | _ \<Rightarrow> NaN)"

text \<open>
  The comparator handed to \<^verbatim>\<open>sort\<close> in \<^verbatim>\<open>attachDistances\<close>. Sorting reads only the sign
  of its result, and the sign of a floating-point difference is that of the exact one, so
  the difference is taken by \<open>js_minus\<close>.
\<close>

definition byDistance :: "cafe \<Rightarrow> cafe \<Rightarrow> jsnum" where
  "byDistance a b =
     js_minus (nullish (distanceMeters a) PosInf) (nullish (distanceMeters b) PosInf)"

text \<open>
  \<^verbatim>\<open>Array.prototype.sort\<close> with a comparator, as a stable insertion sort: an element
  moves behind a later one only when the comparator is positive (a \<^verbatim>\<open>NaN\<close> result counts
  as 0). For a consistent comparator every stable sort gives this list; for an inconsistent
  one the language leaves the order open, and this is one admissible outcome.
\<close>

fun insert_by :: "('a \<Rightarrow> 'a \<Rightarrow> jsnum) \<Rightarrow> 'a \<Rightarrow> 'a list \<Rightarrow> 'a list" where
  "insert_by cmp x [] = [x]"
| "insert_by cmp x (y # ys) =
     (if js_positive (cmp x y) then y # insert_by cmp x ys else x # y # ys)"

definition Array_sort :: "('a \<Rightarrow> 'a \<Rightarrow> jsnum) \<Rightarrow> 'a list \<Rightarrow> 'a list" where
  "Array_sort cmp xs = foldr (insert_by cmp) xs []"

text \<open>
  \<^verbatim>\<open>attachDistances\<close> writes the distance into every record and sorts the array in
  place; the model returns the array as it is afterwards. \<open>withDistance\<close> is the body of
  its \<^verbatim>\<open>forEach\<close>.
\<close>

definition withDistance :: "arith \<Rightarrow> real \<Rightarrow> real \<Rightarrow> cafe \<Rightarrow> cafe" where
  "withDistance ar originLat originLng c =
     c\<lparr>distanceMeters := Some (distanceTo ar originLat originLng c)\<rparr>"

definition attachDistances :: "arith \<Rightarrow> cafe list \<Rightarrow> real \<Rightarrow> real \<Rightarrow> cafe list" where
  "attachDistances ar cafes originLat originLng =
     Array_sort byDistance (map (withDistance ar originLat originLng) cafes)"

subsection \<open>Strings\<close>

definition toLowerCase_char :: "char \<Rightarrow> char" where
  "toLowerCase_char c =
     (let n = (of_char c :: nat) in if 65 \<le> n \<and> n \<le> 90 then char_of (n + 32) else c)"

definition toLowerCase :: "string \<Rightarrow> string" where
  "toLowerCase s = map toLowerCase_char s"

definition isWhiteSpace :: "char \<Rightarrow> bool" where
  "isWhiteSpace c = ((of_char c :: nat) \<in> {9, 10, 11, 12, 13, 32})"

definition trim :: "string \<Rightarrow> string" where
  "trim s = rev (dropWhile isWhiteSpace (rev (dropWhile isWhiteSpace s)))"

text \<open>\<^verbatim>\<open>s.includes(q)\<close>: \<open>q\<close> occurs in \<open>s\<close> as a contiguous run.\<close>

fun includes_str :: "'a list \<Rightarrow> 'a list \<Rightarrow> bool" where
  "includes_str [] q = (q = [])"
| "includes_str (c # cs) q = (prefix q (c # cs) \<or> includes_str cs q)"

fun join :: "string \<Rightarrow> string list \<Rightarrow> string" where
  "join sep [] = []"
| "join sep [x] = x"
| "join sep (x # y # ys) = x @ sep @ join sep (y # ys)"

text \<open>Decimal rendering of an integer, as \<^verbatim>\<open>String\<close> and template strings give it.\<close>

fun decimal :: "nat \<Rightarrow> string" where
  "decimal n =
     (if n < 10 then [char_of (48 + n)] else decimal (n div 10) @ [char_of (48 + n mod 10)])"

declare decimal.simps [simp del]

definition String_int :: "int \<Rightarrow> string" where
  "String_int i = (if i < 0 then CHR ''-'' # decimal (nat (- i)) else decimal (nat i))"

datatype rawid = IdNum int | IdStr string

fun String_id :: "rawid \<Rightarrow> string" where
  "String_id (IdNum i) = String_int i"
| "String_id (IdStr s) = s"

text \<open>
  Truthiness of an optional number and \<^verbatim>\<open>a || b\<close> on an optional string: \<^verbatim>\<open>undefined\<close>,
  the number 0 and the empty string are falsy.
\<close>

definition truthy_num :: "real option \<Rightarrow> bool" where
  "truthy_num x = (case x of None \<Rightarrow> False | Some r \<Rightarrow> r \<noteq> 0)"

definition str_or :: "string option \<Rightarrow> string \<Rightarrow> string" where
  "str_or a b = (case a of None \<Rightarrow> b | Some s \<Rightarrow> if s = [] then b else s)"

definition ellipsis :: string where
  "ellipsis = [CHR 0xE2, CHR 0x80, CHR 0xA6]"

subsection \<open>Data loading\<close>

datatype error =
    NetworkError
  | OverpassError nat
  | NoOverpassResults
  | FallbackLoadError
  | SyntaxError
  | TypeError
  | RangeError
  | InvalidLatLng

text \<open>
  What \<^verbatim>\<open>fetch\<close> gives: a rejected promise, or a response with its \<^verbatim>\<open>ok\<close> flag, its
  status and the value \<^verbatim>\<open>res.json()\<close> resolves to (\<open>None\<close> when the body is not JSON).
\<close>

datatype 'a response = Rejected | Response bool nat "'a option"

text \<open>
  An element of the Overpass answer: a numeric id, an optional tag bag, optional own
  coordinates \<^verbatim>\<open>lat\<close>, \<^verbatim>\<open>lon\<close>, and an optional \<^verbatim>\<open>center\<close> object, given by its numeric
  members (Overpass writes \<^verbatim>\<open>{lat, lon}\<close> there).
\<close>

record element =
  el_id :: int
  el_tags :: "(string \<rightharpoonup> string) option"
  el_lat :: "real option"
  el_lon :: "real option"
  el_center :: "(string \<rightharpoonup> real) option"

text \<open>A record of the bundled fallback file \<^verbatim>\<open>data/cafes.json\<close>.\<close>

record item =
  it_id :: rawid
  it_name :: "string option"
  it_area :: "string option"
  it_location :: "string option"
  it_contact :: "string option"
  it_lat :: "real option"
  it_lng :: "real option"
  it_rating :: "real option"

text \<open>
  The two remote resources. The Overpass answer may depend on the query, which is a
  function of latitude, longitude and radius; its body is an object whose \<^verbatim>\<open>elements\<close>
  member is an array or not (\<open>None\<close>). The fallback body is an array or not.
\<close>

record network =
  overpass :: "real \<Rightarrow> real \<Rightarrow> real \<Rightarrow> element list option response"
  cafesJson :: "item list option response"

text \<open>
  The callback of \<^verbatim>\<open>elements.map\<close> in \<^verbatim>\<open>fetchOverpassCafes\<close>; \<open>None\<close> is its \<^verbatim>\<open>null\<close>.
  \<open>latLng\<close> is an object either way: the one built from the element's own coordinates,
  with members \<^verbatim>\<open>lat\<close> and \<^verbatim>\<open>lng\<close>, or the element's \<^verbatim>\<open>center\<close> as it came.
\<close>

definition latLng_of :: "element \<Rightarrow> (string \<rightharpoonup> real) option" where
  "latLng_of el =
     (if truthy_num (el_lat el) \<and> truthy_num (el_lon el)
      then (case (el_lat el, el_lon el) of
              (Some nlat, Some nlon) \<Rightarrow> Some [''lat'' \<mapsto> nlat, ''lng'' \<mapsto> nlon]
            | _ \<Rightarrow> None)
      else el_center el)"

definition normalizeElement :: "element \<Rightarrow> cafe option" where
  "normalizeElement el =
     (let tags = nullish (el_tags el) Map.empty in
      case latLng_of el of
        None \<Rightarrow> None
      | Some latLng \<Rightarrow>
          Some \<lparr>cid = String_int (el_id el),
                name = Some (str_or (tags ''name'') ''Cafe''),
                area = str_or (tags ''addr:suburb'') (str_or (tags ''addr:city'') []),
                address = join '', ''
                  [s. Some s \<leftarrow> [tags ''addr:housename'', tags ''addr:housenumber'',
                                 tags ''addr:street'', tags ''addr:suburb'', tags ''addr:city''],
                      s \<noteq> []],
                contact = str_or (tags ''contact:phone'') (str_or (tags ''phone'') []),
                lat = latLng ''lat'',
                lng = latLng ''lng'',
                rating = None,
                distanceMeters = None\<rparr>)"

text \<open>\<^verbatim>\<open>elements.map(...).filter(Boolean)\<close>.\<close>

definition normalizeAll :: "element list \<Rightarrow> cafe list" where
  "normalizeAll elements = [c. Some c \<leftarrow> map normalizeElement elements]"

definition fetchOverpassCafes :: "network \<Rightarrow> real \<Rightarrow> real \<Rightarrow> real \<Rightarrow> error + cafe list" where
  "fetchOverpassCafes net lat0 lon0 radiusMeters =
     (case overpass net lat0 lon0 radiusMeters of
        Rejected \<Rightarrow> Inl NetworkError
      | Response ok status body \<Rightarrow>
          if \<not> ok then Inl (OverpassError status)
          else (case body of
                  None \<Rightarrow> Inl SyntaxError
                | Some data \<Rightarrow> Inr (normalizeAll (nullish data []))))"

definition fallbackCafe :: "item \<Rightarrow> cafe" where
  "fallbackCafe c =
     \<lparr>cid = String_id (it_id c),
      name = it_name c,
      area = str_or (it_area c) [],
      address = str_or (it_location c) [],
      contact = str_or (it_contact c) [],
      lat = it_lat c,
      lng = it_lng c,
      rating = it_rating c,
      distanceMeters = None\<rparr>"

definition loadFallbackCafes :: "network \<Rightarrow> error + cafe list" where
  "loadFallbackCafes net =
     (case cafesJson net of
        Rejected \<Rightarrow> Inl NetworkError
      | Response ok status body \<Rightarrow>
          if \<not> ok then Inl FallbackLoadError
          else (case body of
                  None \<Rightarrow> Inl SyntaxError
                | Some None \<Rightarrow> Inl TypeError
                | Some (Some items) \<Rightarrow> Inr (map fallbackCafe items)))"

subsection \<open>Page state\<close>

text \<open>
  A marker is its position and the data its popup text is built from; a card is the texts
  it shows and whether it carries the class \<^verbatim>\<open>selected\<close>. The stars of a popup are the
  numbers of filled and hollow ones; the distance of a popup or a card is the record's
  \<^verbatim>\<open>distanceMeters\<close>, from which \<^verbatim>\<open>toKm\<close> computes the figure shown.
\<close>

record popup =
  p_name :: string
  p_address :: "string option"
  p_contact :: "string option"
  p_stars :: "(nat \<times> nat) option"
  p_distance :: "jsnum option"
  p_from :: "(real \<times> real) option"

record marker =
  m_lat :: real
  m_lng :: real
  m_popup :: popup

record card =
  c_id :: string
  c_title :: string
  c_distance :: "jsnum option"
  c_area :: string
  c_meta :: string
  selected :: bool

datatype child = EmptyNotice | CardEl string

datatype event =
    FetchOverpass real real real
  | FetchFallback
  | ConsoleWarn error
  | ConsoleError error
  | ConsoleErrorPosition "string option"
  | Alert string
  | ScrollIntoView string
  | OpenPopup string

text \<open>
  The item \<^verbatim>\<open>cf_prefs\<close> of \<^verbatim>\<open>localStorage\<close>, by what \<^verbatim>\<open>JSON.parse\<close> makes of its text:
  no item, the empty text, a text that does not parse, or a text that parses to \<^verbatim>\<open>null\<close>
  or to an object with numeric members. Writing \<^verbatim>\<open>JSON.stringify\<close> of an object of finite
  numbers leaves a text that parses to that object.
\<close>

datatype json = JNull | JObj "string \<rightharpoonup> real"

datatype stored = NoItem | EmptyText | Unparseable | Parses json

text \<open>
  The module-level variables, the registries, and the parts of the page and of the map
  that the handlers write. \<open>radiusSelect_value\<close> is the number the select's value
  denotes. \<open>events\<close> records, in order, the network requests, console messages, alerts
  and widget requests made.
\<close>

record app =
  allCafes :: "cafe list"
  filteredCafes :: "cafe list"
  selectedCafeId :: "string option"
  idToMarker :: "string \<rightharpoonup> marker"
  idToCard :: "string \<rightharpoonup> card"
  cafeLayer :: "marker list"
  cafeListEl :: "child list"
  userMarker :: "(real \<times> real) option"
  resultSummary :: string
  spinnerHidden :: "bool option"
  searchInput_value :: string
  radiusSelect_value :: real
  mapCenter :: "real \<times> real"
  mapZoom :: real
  cf_prefs :: stored
  events :: "event list"

definition INDIA_CENTER :: "real \<times> real" where
  "INDIA_CENTER = (229734 / 10000, 786569 / 10000)"

definition INDIA_ZOOM :: real where
  "INDIA_ZOOM = 5"

definition setSummary :: "string \<Rightarrow> app \<Rightarrow> app" where
  "setSummary t st = st\<lparr>resultSummary := t\<rparr>"

definition showSpinner :: "bool \<Rightarrow> app \<Rightarrow> app" where
  "showSpinner visible st =
     (case spinnerHidden st of
        None \<Rightarrow> st
      | Some _ \<Rightarrow> st\<lparr>spinnerHidden := Some (\<not> visible)\<rparr>)"

definition clearCafes :: "app \<Rightarrow> app" where
  "clearCafes st =
     st\<lparr>cafeLayer := [], idToMarker := Map.empty, idToCard := Map.empty,
        cafeListEl := [], selectedCafeId := None\<rparr>"

subsection \<open>Selection\<close>

definition selectCafe :: "string \<Rightarrow> bool \<Rightarrow> app \<Rightarrow> app" where
  "selectCafe cafeId fly st =
     (let st1 = st\<lparr>idToCard := (\<lambda>k. map_option (\<lambda>el. el\<lparr>selected := False\<rparr>) (idToCard st k))\<rparr>;
          st2 = (case idToCard st1 cafeId of
                   None \<Rightarrow> st1
                 | Some el \<Rightarrow>
                     st1\<lparr>idToCard := (idToCard st1)(cafeId \<mapsto> el\<lparr>selected := True\<rparr>),
                         events := events st1 @ [ScrollIntoView cafeId]\<rparr>);
          st3 = (case idToMarker st2 cafeId of
                   None \<Rightarrow> st2
                 | Some m \<Rightarrow>
                     (let st' = st2\<lparr>events := events st2 @ [OpenPopup cafeId]\<rparr>
                      in if fly
                         then st'\<lparr>mapCenter := (m_lat m, m_lng m), mapZoom := max (mapZoom st') 15\<rparr>
                         else st'))
      in st3\<lparr>selectedCafeId := Some cafeId\<rparr>)"

subsection \<open>Rendering\<close>

text \<open>
  The star line of a popup. \<^verbatim>\<open>String.prototype.repeat\<close> throws a \<^verbatim>\<open>RangeError\<close> for a
  negative count, which a rating that rounds below 0 or above 5 produces.
\<close>

definition stars :: "real option \<Rightarrow> error + (nat \<times> nat) option" where
  "stars r =
     (case r of
        None \<Rightarrow> Inr None
      | Some x \<Rightarrow>
          if Math_round x < 0 \<or> 5 - Math_round x < 0 then Inl RangeError
          else Inr (Some (nat (Math_round x), nat (5 - Math_round x))))"

definition popupFor :: "(real \<times> real) option \<Rightarrow> cafe \<Rightarrow> error + popup" where
  "popupFor userLatLng c =
     (case stars (rating c) of
        Inl e \<Rightarrow> Inl e
      | Inr s \<Rightarrow>
          Inr \<lparr>p_name = str_or (name c) ''Unnamed Cafe'',
               p_address = (if address c = [] then None else Some (address c)),
               p_contact = (if contact c = [] then None else Some (contact c)),
               p_stars = s,
               p_distance = distanceMeters c,
               p_from = userLatLng\<rparr>)"

text \<open>
  The marker of a record, as the callback of \<^verbatim>\<open>cafes.forEach\<close> in \<^verbatim>\<open>renderMarkers\<close>
  builds it: first the popup text, then \<^verbatim>\<open>L.marker([cafe.lat, cafe.lng])\<close>, which throws
  \<^verbatim>\<open>Invalid LatLng object\<close> when a coordinate is \<^verbatim>\<open>undefined\<close>.
\<close>

definition markerFor :: "(real \<times> real) option \<Rightarrow> cafe \<Rightarrow> error + marker" where
  "markerFor userLatLng c =
     (case popupFor userLatLng c of
        Inl e \<Rightarrow> Inl e
      | Inr p \<Rightarrow>
          (case (lat c, lng c) of
             (Some la, Some lo) \<Rightarrow> Inr \<lparr>m_lat = la, m_lng = lo, m_popup = p\<rparr>
           | _ \<Rightarrow> Inl InvalidLatLng))"

fun renderMarkers_each :: "cafe list \<Rightarrow> app \<Rightarrow> error option \<times> app" where
  "renderMarkers_each [] st = (None, st)"
| "renderMarkers_each (c # cs) st =
     (case markerFor (userMarker st) c of
        Inl e \<Rightarrow> (Some e, st)
      | Inr m \<Rightarrow>
          renderMarkers_each cs
            (st\<lparr>cafeLayer := cafeLayer st @ [m], idToMarker := (idToMarker st)(cid c \<mapsto> m)\<rparr>))"

definition renderMarkers :: "cafe list \<Rightarrow> app \<Rightarrow> error option \<times> app" where
  "renderMarkers cafes st =
     renderMarkers_each cafes (st\<lparr>cafeLayer := [], idToMarker := Map.empty\<rparr>)"

definition cardFor :: "cafe \<Rightarrow> card" where
  "cardFor c =
     \<lparr>c_id = cid c,
      c_title = str_or (name c) ''Unnamed Cafe'',
      c_distance = distanceMeters c,
      c_area = (if area c \<noteq> [] then area c else address c),
      c_meta = (if contact c = [] then [] else ''Contact: '' @ contact c),
      selected = False\<rparr>"

fun renderList_each :: "cafe list \<Rightarrow> app \<Rightarrow> app" where
  "renderList_each [] st = st"
| "renderList_each (c # cs) st =
     renderList_each cs
       (st\<lparr>cafeListEl := cafeListEl st @ [CardEl (cid c)],
           idToCard := (idToCard st)(cid c \<mapsto> cardFor c)\<rparr>)"

definition renderList :: "cafe list \<Rightarrow> app \<Rightarrow> app" where
  "renderList cafes st =
     (let st1 = st\<lparr>cafeListEl := [], idToCard := Map.empty\<rparr>
      in if cafes = [] then st1\<lparr>cafeListEl := [EmptyNotice]\<rparr> else renderList_each cafes st1)"

text \<open>
  A function that may throw returns the exception, if any, beside the state as it is when
  the function is left.
\<close>

definition updateUI :: "cafe list \<Rightarrow> string \<Rightarrow> app \<Rightarrow> error option \<times> app" where
  "updateUI cafes from st =
     (let st1 = st\<lparr>filteredCafes := cafes\<rparr> in
      case renderMarkers (filteredCafes st1) st1 of
        (Some e, st2) \<Rightarrow> (Some e, st2)
      | (None, st2) \<Rightarrow>
          (let st3 = renderList (filteredCafes st2) st2
           in (None,
               if from \<noteq> ''search''
               then setSummary (decimal (length (filteredCafes st3)) @ '' cafe(s) found'') st3
               else st3)))"

subsection \<open>Preferences\<close>

text \<open>\<^verbatim>\<open>JSON.parse(localStorage.getItem('cf_prefs') || '{}')\<close>.\<close>

definition readPrefs :: "stored \<Rightarrow> error + json" where
  "readPrefs s =
     (case s of
        NoItem \<Rightarrow> Inr (JObj Map.empty)
      | EmptyText \<Rightarrow> Inr (JObj Map.empty)
      | Unparseable \<Rightarrow> Inl SyntaxError
      | Parses v \<Rightarrow> Inr v)"

text \<open>The own members \<^verbatim>\<open>{...p}\<close> copies: none for \<^verbatim>\<open>null\<close>.\<close>

definition spread :: "json \<Rightarrow> (string \<rightharpoonup> real)" where
  "spread p = (case p of JNull \<Rightarrow> Map.empty | JObj m \<Rightarrow> m)"

definition savePrefs :: "(string \<rightharpoonup> real) \<Rightarrow> app \<Rightarrow> error option \<times> app" where
  "savePrefs partial st =
     (case readPrefs (cf_prefs st) of
        Inl e \<Rightarrow> (Some e, st)
      | Inr p \<Rightarrow> (None, st\<lparr>cf_prefs := Parses (JObj (spread p ++ partial))\<rparr>))"

text \<open>
  \<open>placeOrUpdate_inner\<close> is the function as declared; \<open>placeOrUpdateUserMarker\<close> is what
  the name is bound to once the script has run, the wrapper that also saves the location.
\<close>

definition placeOrUpdate_inner :: "real \<Rightarrow> real \<Rightarrow> app \<Rightarrow> app" where
  "placeOrUpdate_inner lat0 lng0 st = st\<lparr>userMarker := Some (lat0, lng0)\<rparr>"

definition placeOrUpdateUserMarker :: "real \<Rightarrow> real \<Rightarrow> app \<Rightarrow> error option \<times> app" where
  "placeOrUpdateUserMarker lat0 lng0 st =
     savePrefs [''lastLat'' \<mapsto> lat0, ''lastLng'' \<mapsto> lng0] (placeOrUpdate_inner lat0 lng0 st)"

text \<open>
  \<^verbatim>\<open>loadPrefs\<close>: everything is inside \<^verbatim>\<open>try { ... } catch {}\<close>, so an exception ends the
  function with the state reached so far.
\<close>

definition loadPrefs :: "app \<Rightarrow> app" where
  "loadPrefs st =
     (case readPrefs (cf_prefs st) of
        Inl e \<Rightarrow> st
      | Inr JNull \<Rightarrow> st
      | Inr (JObj p) \<Rightarrow>
          (let st1 = (if truthy_num (p ''radius'')
                      then st\<lparr>radiusSelect_value := nullish (p ''radius'') 0\<rparr> else st)
           in if truthy_num (p ''lastLat'') \<and> truthy_num (p ''lastLng'')
              then (case (p ''lastLat'', p ''lastLng'') of
                      (Some la, Some lo) \<Rightarrow>
                        (case placeOrUpdateUserMarker la lo st1 of
                           (Some e, st2) \<Rightarrow> st2
                         | (None, st2) \<Rightarrow> st2\<lparr>mapCenter := (la, lo), mapZoom := 13\<rparr>)
                    | _ \<Rightarrow> st1)
              else st1))"

subsection \<open>Interactions\<close>

text \<open>
  The statement \<^verbatim>\<open>try { ... } catch (err) { try { ... } catch (e2) { ... } } finally { ... }\<close>
  that \<^verbatim>\<open>handleFindNearMe\<close> and \<^verbatim>\<open>handlePickOnMap\<close> both run once they have a position.
  \<open>tryOverpass\<close> is the outer \<^verbatim>\<open>try\<close> block, \<open>tryFallback\<close> the inner one, and
  \<open>searchAround\<close> the whole statement; the awaited requests are made one after the other.
\<close>

definition tryOverpass ::
  "arith \<Rightarrow> network \<Rightarrow> real \<Rightarrow> real \<Rightarrow> real \<Rightarrow> app \<Rightarrow> error option \<times> app" where
  "tryOverpass ar net latitude longitude radiusMeters st =
     (let st1 = showSpinner True st;
          st2 = setSummary (''Searching nearby cafes'' @ ellipsis) st1;
          st3 = st2\<lparr>events := events st2 @ [FetchOverpass latitude longitude radiusMeters]\<rparr>
      in case fetchOverpassCafes net latitude longitude radiusMeters of
           Inl e \<Rightarrow> (Some e, st3)
         | Inr cafes \<Rightarrow>
             if cafes = [] then (Some NoOverpassResults, st3)
             else (let st4 = st3\<lparr>allCafes := attachDistances ar cafes latitude longitude\<rparr>
                   in updateUI (allCafes st4) ''fetch'' st4))"

definition tryFallback ::
  "arith \<Rightarrow> network \<Rightarrow> real \<Rightarrow> real \<Rightarrow> app \<Rightarrow> error option \<times> app" where
  "tryFallback ar net latitude longitude st =
     (let st1 = st\<lparr>events := events st @ [FetchFallback]\<rparr>
      in case loadFallbackCafes net of
           Inl e \<Rightarrow> (Some e, st1)
         | Inr fallback \<Rightarrow>
             (let st2 = st1\<lparr>allCafes := attachDistances ar fallback latitude longitude\<rparr>
              in case updateUI (allCafes st2) ''fetch'' st2 of
                   (Some e, st3) \<Rightarrow> (Some e, st3)
                 | (None, st3) \<Rightarrow> (None, setSummary ''Showing fallback cafes'' st3)))"

definition searchAround ::
  "arith \<Rightarrow> network \<Rightarrow> real \<Rightarrow> real \<Rightarrow> real \<Rightarrow> app \<Rightarrow> app" where
  "searchAround ar net latitude longitude radiusMeters st =
     showSpinner False
       (case tryOverpass ar net latitude longitude radiusMeters st of
          (None, st1) \<Rightarrow> st1
        | (Some err, st1) \<Rightarrow>
            (case tryFallback ar net latitude longitude
                    (st1\<lparr>events := events st1 @ [ConsoleWarn err]\<rparr>) of
               (None, st2) \<Rightarrow> st2
             | (Some e2, st2) \<Rightarrow>
                 (let st3 = setSummary ''Could not load cafes.'' st2
                  in st3\<lparr>events := events st3 @ [ConsoleError e2]\<rparr>)))"

text \<open>
  What the geolocation service answers: the browser has none, the request fails with an
  optional message, or it gives a position.
\<close>

datatype geolocation = Unsupported | PositionError "string option" | Position real real

definition handleFindNearMe ::
  "arith \<Rightarrow> geolocation \<Rightarrow> network \<Rightarrow> app \<Rightarrow> error option \<times> app" where
  "handleFindNearMe ar geo net st =
     (case geo of
        Unsupported \<Rightarrow>
          (None, st\<lparr>events := events st @ [Alert ''Geolocation is not supported by your browser.'']\<rparr>)
      | PositionError msg \<Rightarrow>
          (let st1 = setSummary (''Locating you'' @ ellipsis) st;
               st2 = st1\<lparr>events := events st1 @
                       [ConsoleErrorPosition msg,
                        Alert (''Unable to retrieve your location. '' @ str_or msg [] @
                               '' You can use '' @ [CHR 0x22] @ ''Pick on Map'' @ [CHR 0x22] @
                               '' to set a point manually.'')]\<rparr>
           in (None, setSummary ''Location permission needed. Or use Pick on Map.'' st2))
      | Position latitude longitude \<Rightarrow>
          (let st1 = setSummary (''Locating you'' @ ellipsis) st;
               radiusMeters = radiusSelect_value st1
           in case placeOrUpdateUserMarker latitude longitude st1 of
                (Some e, st2) \<Rightarrow> (Some e, st2)
              | (None, st2) \<Rightarrow>
                  (None, searchAround ar net latitude longitude radiusMeters
                           (st2\<lparr>mapCenter := (latitude, longitude), mapZoom := 14\<rparr>))))"

text \<open>\<^verbatim>\<open>handlePickOnMap\<close> followed by the click it waits for, at the given point.\<close>

definition handlePickOnMap ::
  "arith \<Rightarrow> real \<times> real \<Rightarrow> network \<Rightarrow> app \<Rightarrow> error option \<times> app" where
  "handlePickOnMap ar latlng net st =
     (let st1 = setSummary (''Click on the map to set your location'' @ ellipsis) st
      in case placeOrUpdateUserMarker (fst latlng) (snd latlng) st1 of
           (Some e, st2) \<Rightarrow> (Some e, st2)
         | (None, st2) \<Rightarrow>
             (let st3 = st2\<lparr>mapCenter := (fst latlng, snd latlng), mapZoom := 14\<rparr>;
                  radiusMeters = radiusSelect_value st3
              in (None, searchAround ar net (fst latlng) (snd latlng) radiusMeters st3)))"

text \<open>The predicate of \<^verbatim>\<open>allCafes.filter\<close> in \<^verbatim>\<open>handleSearchInput\<close>.\<close>

definition matchesQuery :: "string \<Rightarrow> cafe \<Rightarrow> bool" where
  "matchesQuery q c =
     (includes_str (toLowerCase (str_or (name c) [])) q
      \<or> includes_str (toLowerCase (str_or (Some (area c)) [])) q)"

definition handleSearchInput :: "app \<Rightarrow> error option \<times> app" where
  "handleSearchInput st =
     (let q = toLowerCase (trim (searchInput_value st)) in
      if q = [] then
        (case updateUI (allCafes st) ''search'' st of
           (Some e, st1) \<Rightarrow> (Some e, st1)
         | (None, st1) \<Rightarrow>
             (None, setSummary (decimal (length (allCafes st1)) @ '' cafe(s) found'') st1))
      else
        (let matches = filter (matchesQuery q) (allCafes st) in
         case updateUI matches ''search'' st of
           (Some e, st1) \<Rightarrow> (Some e, st1)
         | (None, st1) \<Rightarrow>
             (None, setSummary (decimal (length matches) @ '' result(s) for '' @
                                [CHR 0x22] @ q @ [CHR 0x22]) st1)))"

definition handleReset :: "app \<Rightarrow> app" where
  "handleReset st =
     (let st1 = clearCafes (st\<lparr>searchInput_value := [], radiusSelect_value := 1000\<rparr>);
          st2 = st1\<lparr>userMarker := None\<rparr>;
          st3 = setSummary ''Ready when you are.'' st2
      in st3\<lparr>mapCenter := INDIA_CENTER, mapZoom := INDIA_ZOOM\<rparr>)"

subsection \<open>The search filter as the specification words it\<close>

text \<open>
  Following the specification's wording of the filter, not the source: a record is kept
  when the query, trimmed and lower-cased, occurs somewhere in the lower-cased name or in
  the lower-cased area; an empty query keeps everything.
\<close>

definition occurs_in :: "string \<Rightarrow> string \<Rightarrow> bool" where
  "occurs_in q s = (\<exists>before after. s = before @ q @ after)"

definition spec_filter :: "cafe list \<Rightarrow> string \<Rightarrow> cafe list" where
  "spec_filter cafes query =
     (let q = toLowerCase (trim query) in
      if q = [] then cafes
      else filter (\<lambda>c. occurs_in q (toLowerCase (case name c of None \<Rightarrow> [] | Some n \<Rightarrow> n))
                      \<or> occurs_in q (toLowerCase (area c))) cafes)"

subsection \<open>Sample data\<close>

definition cafeA :: cafe where
  "cafeA = \<lparr>cid = ''1'', name = Some ''Alpha Beans'', area = ''North'', address = [],
            contact = [], lat = Some 0, lng = Some 0, rating = None, distanceMeters = None\<rparr>"

definition cafeB :: cafe where
  "cafeB = \<lparr>cid = ''2'', name = Some ''Brew Lab'', area = ''Alphaville'', address = [],
            contact = [], lat = Some 0, lng = Some 0, rating = None, distanceMeters = None\<rparr>"

definition cafeFar :: cafe where
  "cafeFar = \<lparr>cid = ''3'', name = Some ''Corner'', area = ''South'', address = [],
              contact = [], lat = Some 0, lng = Some 180, rating = None, distanceMeters = None\<rparr>"

text \<open>
  Two Overpass elements: a way that has no coordinates of its own and carries the
  \<^verbatim>\<open>center\<close> Overpass computes for it, and a node with its own coordinates. A node on the
  equator. A fallback record.
\<close>

definition wayWithCenter :: element where
  "wayWithCenter =
     \<lparr>el_id = 42, el_tags = Some [''name'' \<mapsto> ''Courtyard''], el_lat = None, el_lon = None,
      el_center = Some [''lat'' \<mapsto> 129 / 10, ''lon'' \<mapsto> 776 / 10]\<rparr>"

definition nodeEl :: element where
  "nodeEl =
     \<lparr>el_id = 7, el_tags = Some [''name'' \<mapsto> ''Alpha''], el_lat = Some (25 / 2),
      el_lon = Some (155 / 2), el_center = None\<rparr>"

definition nodeOnEquator :: element where
  "nodeOnEquator =
     \<lparr>el_id = 8, el_tags = None, el_lat = Some 0, el_lon = Some (155 / 2), el_center = None\<rparr>"

definition itemX :: item where
  "itemX =
     \<lparr>it_id = IdNum 5, it_name = Some ''Local'', it_area = Some ''Center'', it_location = None,
      it_contact = None, it_lat = Some (25 / 2), it_lng = Some (155 / 2), it_rating = Some 4\<rparr>"

text \<open>The page as the script leaves it on a first visit, before any interaction.\<close>

definition freshApp :: app where
  "freshApp =
     \<lparr>allCafes = [], filteredCafes = [], selectedCafeId = None, idToMarker = Map.empty,
      idToCard = Map.empty, cafeLayer = [], cafeListEl = [], userMarker = None,
      resultSummary = ''Ready when you are.'', spinnerHidden = Some True,
      searchInput_value = [], radiusSelect_value = 1000, mapCenter = INDIA_CENTER,
      mapZoom = INDIA_ZOOM, cf_prefs = NoItem, events = []\<rparr>"

text \<open>
  Three networks: both resources unreachable; Overpass answering with one node and the
  fallback file unreachable; Overpass answering with no element and the fallback file
  holding one record.
\<close>

definition netDown :: network where
  "netDown = \<lparr>overpass = (\<lambda>_ _ _. Rejected), cafesJson = Rejected\<rparr>"

definition netOneNode :: network where
  "netOneNode =
     \<lparr>overpass = (\<lambda>_ _ _. Response True 200 (Some (Some [nodeEl]))), cafesJson = Rejected\<rparr>"

definition netEmptyPrimary :: network where
  "netEmptyPrimary =
     \<lparr>overpass = (\<lambda>_ _ _. Response True 200 (Some (Some []))),
      cafesJson = Response True 200 (Some (Some [itemX]))\<rparr>"

text \<open>
  Pages in later states: two cards rendered and the second one selected; a location
  stored from an earlier visit; three cafes loaded and a query typed; a query typed
  before anything is loaded.
\<close>

definition appTwoCards :: app where
  "appTwoCards =
     freshApp\<lparr>idToCard := [''1'' \<mapsto> cardFor cafeA, ''2'' \<mapsto> (cardFor cafeB)\<lparr>selected := True\<rparr>],
              selectedCafeId := Some ''2''\<rparr>"

definition appWithLocation :: app where
  "appWithLocation =
     freshApp\<lparr>cf_prefs := Parses (JObj [''lastLat'' \<mapsto> 25 / 2, ''lastLng'' \<mapsto> 155 / 2])\<rparr>"

definition appSearching :: app where
  "appSearching =
     freshApp\<lparr>allCafes := [cafeA, cafeFar, cafeB], filteredCafes := [cafeA, cafeFar, cafeB],
              searchInput_value := ''  ALPHA ''\<rparr>"

definition appTyped :: app where
  "appTyped = freshApp\<lparr>searchInput_value := ''latte''\<rparr>"

subsection \<open>Vocabulary of the fallback policy\<close>

text \<open>
  The exception, if any, that ends the primary attempt before anything is shown: the one
  \<^verbatim>\<open>fetchOverpassCafes\<close> throws, or the one thrown for an empty result.
\<close>

definition primaryError :: "network \<Rightarrow> real \<Rightarrow> real \<Rightarrow> real \<Rightarrow> error option" where
  "primaryError net latitude longitude radiusMeters =
     (case fetchOverpassCafes net latitude longitude radiusMeters of
        Inl e \<Rightarrow> Some e
      | Inr cafes \<Rightarrow> if cafes = [] then Some NoOverpassResults else None)"

subsection \<open>Vocabulary of rendering\<close>

text \<open>
  A record for which the callback of \<^verbatim>\<open>renderMarkers\<close> runs without an exception: its
  rating, if any, rounds into 0..5, and it has both coordinates. The children of the list
  element and the card registry that \<^verbatim>\<open>renderList\<close> leaves for a list of records.
\<close>

definition renderable :: "cafe \<Rightarrow> bool" where
  "renderable c =
     ((case rating c of None \<Rightarrow> True | Some x \<Rightarrow> 0 \<le> Math_round x \<and> Math_round x \<le> 5)
      \<and> lat c \<noteq> None \<and> lng c \<noteq> None)"

definition listFor :: "cafe list \<Rightarrow> child list" where
  "listFor cafes = (if cafes = [] then [EmptyNotice] else map (\<lambda>c. CardEl (cid c)) cafes)"

definition cardsFor :: "cafe list \<Rightarrow> (string \<rightharpoonup> card)" where
  "cardsFor cafes = map_of (rev (map (\<lambda>c. (cid c, cardFor c)) cafes))"

text \<open>
  The page shows exactly the given records: the list element and the card registry are
  the ones \<^verbatim>\<open>renderList\<close> makes of them, and the marker layer holds their markers in order.
\<close>

definition showing :: "app \<Rightarrow> cafe list \<Rightarrow> bool" where
  "showing st cafes =
     (cafeListEl st = listFor cafes
      \<and> idToCard st = cardsFor cafes
      \<and> map Inr (cafeLayer st) = map (markerFor (userMarker st)) cafes)"

subsection \<open>More sample data\<close>

text \<open>
  The record that the normalization makes of \<open>wayWithCenter\<close>, and a network where
  Overpass answers with that way and the fallback file holds one record.
\<close>

definition cafeWay :: cafe where
  "cafeWay =
     \<lparr>cid = ''42'', name = Some ''Courtyard'', area = [], address = [], contact = [],
      lat = Some (129 / 10), lng = None, rating = None, distanceMeters = None\<rparr>"

definition netWayAnswer :: network where
  "netWayAnswer =
     \<lparr>overpass = (\<lambda>_ _ _. Response True 200 (Some (Some [wayWithCenter]))),
      cafesJson = Response True 200 (Some (Some [itemX]))\<rparr>"

section \<open>Geometry\<close>

text \<open>
  Values of \<^verbatim>\<open>haversineDistance\<close> in the arithmetic of the real numbers, used for the
  sample data below: a point is at distance 0 from itself, and the two points of the
  equator at longitudes 0 and 180 are half the circumference apart.
\<close>

lemma haversineDistance_exact_self: "haversineDistance exactArith la lo la lo = Fin 0"
  by (simp add: haversineDistance_def toRad_def exactArith_def atan2_real_def)

lemma haversineDistance_exact_antipode:
  "haversineDistance exactArith 0 0 0 180 = Fin (6371000 * pi)"
  by (simp add: haversineDistance_def toRad_def exactArith_def atan2_real_def)

section \<open>Distances and ordering of results\<close>



lemma set_insert_by: "set (insert_by cmp x ys) = insert x (set ys)"
  by (induction ys) auto

lemma set_Array_sort: "set (Array_sort cmp xs) = set xs"
  by (induction xs) (simp_all add: Array_sort_def set_insert_by)












lemma distanceTo_unlocated:
  "lat c = None \<or> lng c = None \<Longrightarrow> distanceTo ar oLat oLng c = NaN"
  by (auto simp: distanceTo_def split: option.splits)




lemma distanceTo_samples:
  "distanceTo exactArith 0 0 cafeA = Fin 0" "distanceTo exactArith 0 0 cafeB = Fin 0"
  "distanceTo exactArith 0 0 cafeFar = Fin (6371000 * pi)"
  by (simp_all add: distanceTo_def cafeA_def cafeB_def cafeFar_def
        haversineDistance_exact_self haversineDistance_exact_antipode)

lemma attachDistances_sample:
  "attachDistances exactArith [cafeFar, cafeA, cafeB] 0 0 =
     [cafeA\<lparr>distanceMeters := Some (Fin 0)\<rparr>, cafeB\<lparr>distanceMeters := Some (Fin 0)\<rparr>,
      cafeFar\<lparr>distanceMeters := Some (Fin (6371000 * pi))\<rparr>]"
  by (simp add: attachDistances_def Array_sort_def withDistance_def distanceTo_samples
        byDistance_def nullish_def)


section \<open>Normalization of Overpass elements\<close>

lemma normalize_Cons:
  "normalizeAll (el # els) =
     (case normalizeElement el of None \<Rightarrow> normalizeAll els | Some c \<Rightarrow> c # normalizeAll els)"
  by (simp add: normalizeAll_def split: option.split)

lemma normalize_append: "normalizeAll (xs @ ys) = normalizeAll xs @ normalizeAll ys"
  by (simp add: normalizeAll_def)

lemma normalizeElement_None: "normalizeElement el = None \<longleftrightarrow> latLng_of el = None"
  by (simp add: normalizeElement_def Let_def split: option.split)

lemma normalizeElement_unresolved:
  "el_center el = None \<Longrightarrow> \<not> (truthy_num (el_lat el) \<and> truthy_num (el_lon el))
     \<Longrightarrow> normalizeElement el = None"
  by (auto simp: normalizeElement_None latLng_of_def truthy_num_def split: option.splits)

lemma normalizeElement_own:
  "el_lat el = Some a \<Longrightarrow> el_lon el = Some b \<Longrightarrow> a \<noteq> 0 \<Longrightarrow> b \<noteq> 0 \<Longrightarrow>
     \<exists>c. normalizeElement el = Some c \<and> lat c = Some a \<and> lng c = Some b"
  by (simp add: normalizeElement_def latLng_of_def truthy_num_def Let_def)

lemma decimal_42: "decimal 42 = ''42''"
  by code_simp

text \<open>
  Claim C3, evaluated where it fails. A way that Overpass returns with a \<^verbatim>\<open>center\<close> and no
  coordinates of its own is kept by the normalization, and its record has no \<^verbatim>\<open>lng\<close>: the
  longitude of a \<^verbatim>\<open>center\<close> is its member \<^verbatim>\<open>lon\<close>, and the record reads the member \<^verbatim>\<open>lng\<close>.
\<close>

theorem normalize_center_lng_undefined:
  "normalizeAll [wayWithCenter] =
     [\<lparr>cid = ''42'', name = Some ''Courtyard'', area = [], address = [], contact = [],
       lat = Some (129 / 10), lng = None, rating = None, distanceMeters = None\<rparr>]"
  by (simp add: normalizeAll_def normalizeElement_def latLng_of_def wayWithCenter_def
        truthy_num_def nullish_def str_or_def String_int_def decimal_42)

text \<open>
  Claim C10. An element whose own latitude or longitude is 0 is treated as having no
  coordinates of its own: the record, if any, is built from the \<^verbatim>\<open>center\<close>, and without a
  \<^verbatim>\<open>center\<close> the element is dropped from the result.
\<close>

theorem zero_coordinate_is_absent:
  assumes "el_lat el = Some 0 \<or> el_lon el = Some 0"
  shows "latLng_of el = el_center el
       \<and> (normalizeElement el = None \<longleftrightarrow> el_center el = None)
       \<and> (\<forall>ce. el_center el = Some ce \<longrightarrow>
             (\<exists>c. normalizeElement el = Some c \<and> lat c = ce ''lat'' \<and> lng c = ce ''lng''))
       \<and> (el_center el = None \<longrightarrow>
             normalizeAll (before @ el # after) = normalizeAll before @ normalizeAll after)"
proof -
  have ll: "latLng_of el = el_center el"
    using assms by (auto simp: latLng_of_def truthy_num_def)
  have none: "normalizeElement el = None \<longleftrightarrow> el_center el = None"
    by (simp add: normalizeElement_None ll)
  have some: "\<exists>c. normalizeElement el = Some c \<and> lat c = ce ''lat'' \<and> lng c = ce ''lng''"
    if "el_center el = Some ce" for ce
    using that by (simp add: normalizeElement_def ll Let_def)
  have dropped: "normalizeAll (before @ el # after) = normalizeAll before @ normalizeAll after"
    if "el_center el = None"
    using that none by (simp add: normalize_append normalize_Cons)
  from ll none some dropped show ?thesis by blast
qed

theorem zero_coordinate_is_absent_witness:
  "el_lat nodeOnEquator = Some 0 \<and> el_lon nodeOnEquator = Some (155 / 2)
   \<and> normalizeElement nodeOnEquator = None
   \<and> normalizeAll [nodeEl, nodeOnEquator] = normalizeAll [nodeEl]"
proof -
  have z: "el_lat nodeOnEquator = Some 0 \<or> el_lon nodeOnEquator = Some 0"
    and c: "el_center nodeOnEquator = None"
    by (simp_all add: nodeOnEquator_def)
  from zero_coordinate_is_absent [OF z, of "[nodeEl]" "[]"] c
  have "normalizeElement nodeOnEquator = None"
    and "normalizeAll ([nodeEl] @ nodeOnEquator # []) = normalizeAll [nodeEl] @ normalizeAll []"
    by blast+
  then show ?thesis by (simp add: nodeOnEquator_def normalizeAll_def)
qed

section \<open>Selection\<close>

text \<open>
  Claim C6. After \<^verbatim>\<open>selectCafe\<close> the selection state is the given id, known or not; every
  registered card is as before except that it is highlighted exactly when it is the card
  of that id, so at most one card is highlighted and none is for an unknown id; and for
  an id in neither registry nothing else changes.
\<close>

theorem selectCafe_single_selection:
  "selectedCafeId (selectCafe cafeId fly st) = Some cafeId
   \<and> (\<forall>k. idToCard (selectCafe cafeId fly st) k
           = map_option (\<lambda>el. el\<lparr>selected := (k = cafeId)\<rparr>) (idToCard st k))
   \<and> (\<forall>k el. idToCard (selectCafe cafeId fly st) k = Some el \<and> selected el \<longrightarrow> k = cafeId)
   \<and> (idToCard st cafeId = None \<longrightarrow>
         (\<forall>k el. idToCard (selectCafe cafeId fly st) k = Some el \<longrightarrow> \<not> selected el))
   \<and> (idToCard st cafeId = None \<and> idToMarker st cafeId = None \<longrightarrow>
         selectCafe cafeId fly st
           = st\<lparr>idToCard := (\<lambda>k. map_option (\<lambda>el. el\<lparr>selected := False\<rparr>) (idToCard st k)),
                selectedCafeId := Some cafeId\<rparr>)"
proof -
  have sel: "selectedCafeId (selectCafe cafeId fly st) = Some cafeId"
    by (simp add: selectCafe_def Let_def split: option.split)
  have cards: "idToCard (selectCafe cafeId fly st) k
           = map_option (\<lambda>el. el\<lparr>selected := (k = cafeId)\<rparr>) (idToCard st k)" for k
  proof (cases "k = cafeId")
    case True
    then show ?thesis
      by (cases "idToCard st cafeId"; cases "idToMarker st cafeId")
         (simp_all add: selectCafe_def Let_def)
  next
    case False
    then show ?thesis
      by (cases "idToCard st cafeId"; cases "idToMarker st cafeId"; cases "idToCard st k")
         (simp_all add: selectCafe_def Let_def)
  qed
  have one: "k = cafeId" if "idToCard (selectCafe cafeId fly st) k = Some el" "selected el" for k el
    using that unfolding cards by (cases "idToCard st k") auto
  have miss: "\<not> selected el"
    if "idToCard st cafeId = None" "idToCard (selectCafe cafeId fly st) k = Some el" for k el
    using that unfolding cards by (cases "idToCard st k") auto
  have noop: "selectCafe cafeId fly st
           = st\<lparr>idToCard := (\<lambda>k. map_option (\<lambda>el. el\<lparr>selected := False\<rparr>) (idToCard st k)),
                selectedCafeId := Some cafeId\<rparr>"
    if "idToCard st cafeId = None" "idToMarker st cafeId = None"
    using that by (simp add: selectCafe_def Let_def)
  from sel cards one miss noop show ?thesis by blast
qed

theorem selectCafe_single_selection_witness:
  "selectedCafeId (selectCafe ''1'' True appTwoCards) = Some ''1''
   \<and> idToCard (selectCafe ''1'' True appTwoCards) ''1'' = Some ((cardFor cafeA)\<lparr>selected := True\<rparr>)
   \<and> idToCard (selectCafe ''1'' True appTwoCards) ''2'' = Some (cardFor cafeB)
   \<and> selectedCafeId (selectCafe ''9'' True appTwoCards) = Some ''9''
   \<and> idToCard (selectCafe ''9'' True appTwoCards) ''1'' = Some (cardFor cafeA)
   \<and> idToCard (selectCafe ''9'' True appTwoCards) ''2'' = Some (cardFor cafeB)"
proof -
  have c: "idToCard appTwoCards ''1'' = Some (cardFor cafeA)"
    "idToCard appTwoCards ''2'' = Some ((cardFor cafeB)\<lparr>selected := True\<rparr>)"
    by (simp_all add: appTwoCards_def)
  have s: "(cardFor cafeA)\<lparr>selected := False\<rparr> = cardFor cafeA"
    "(cardFor cafeB)\<lparr>selected := False\<rparr> = cardFor cafeB"
    by (simp_all add: cardFor_def)
  from selectCafe_single_selection [of "''1''" True appTwoCards]
  have one: "selectedCafeId (selectCafe ''1'' True appTwoCards) = Some ''1''"
    "\<And>k. idToCard (selectCafe ''1'' True appTwoCards) k
           = map_option (\<lambda>el. el\<lparr>selected := (k = ''1'')\<rparr>) (idToCard appTwoCards k)"
    by blast+
  from selectCafe_single_selection [of "''9''" True appTwoCards]
  have nine: "selectedCafeId (selectCafe ''9'' True appTwoCards) = Some ''9''"
    "\<And>k. idToCard (selectCafe ''9'' True appTwoCards) k
           = map_option (\<lambda>el. el\<lparr>selected := (k = ''9'')\<rparr>) (idToCard appTwoCards k)"
    by blast+
  show ?thesis
    by (simp add: one nine c s)
qed

section \<open>Preferences\<close>

lemma loadPrefs_unparseable: "cf_prefs st = Unparseable \<Longrightarrow> loadPrefs st = st"
  by (simp add: loadPrefs_def readPrefs_def)

lemma loadPrefs_absent: "cf_prefs st = NoItem \<or> cf_prefs st = EmptyText \<Longrightarrow> loadPrefs st = st"
  by (auto simp: loadPrefs_def readPrefs_def truthy_num_def)

text \<open>
  Claim C7, evaluated where it fails. With a stored text that does not parse,
  \<^verbatim>\<open>savePrefs\<close> throws a \<^verbatim>\<open>SyntaxError\<close> to its caller, and \<^verbatim>\<open>handleFindNearMe\<close>, which
  saves the location before its \<^verbatim>\<open>try\<close>, ends with that exception uncaught;
  \<^verbatim>\<open>loadPrefs\<close> catches it and leaves the page as it is.
\<close>

lemma placeOrUpdateUserMarker_unparseable:
  "cf_prefs st = Unparseable \<Longrightarrow>
     placeOrUpdateUserMarker la lo st = (Some SyntaxError, st\<lparr>userMarker := Some (la, lo)\<rparr>)"
  by (simp add: savePrefs_def readPrefs_def placeOrUpdateUserMarker_def placeOrUpdate_inner_def)

lemma handleFindNearMe_unparseable:
  "cf_prefs st = Unparseable \<Longrightarrow>
     handleFindNearMe ar (Position la lo) net st
       = (Some SyntaxError,
          st\<lparr>resultSummary := ''Locating you'' @ ellipsis, userMarker := Some (la, lo)\<rparr>)"
  by (simp add: handleFindNearMe_def placeOrUpdateUserMarker_unparseable setSummary_def Let_def)

theorem savePrefs_unparseable_throws:
  "fst (savePrefs [''radius'' \<mapsto> 2000] (freshApp\<lparr>cf_prefs := Unparseable\<rparr>)) = Some SyntaxError
   \<and> fst (handleFindNearMe ar (Position (25 / 2) (155 / 2)) netOneNode
             (freshApp\<lparr>cf_prefs := Unparseable\<rparr>)) = Some SyntaxError
   \<and> loadPrefs (freshApp\<lparr>cf_prefs := Unparseable\<rparr>) = freshApp\<lparr>cf_prefs := Unparseable\<rparr>"
proof -
  have u: "cf_prefs (freshApp\<lparr>cf_prefs := Unparseable\<rparr>) = Unparseable"
    by simp
  have "fst (savePrefs [''radius'' \<mapsto> 2000] (freshApp\<lparr>cf_prefs := Unparseable\<rparr>)) = Some SyntaxError"
    by (simp add: savePrefs_def readPrefs_def)
  moreover have "fst (handleFindNearMe ar (Position (25 / 2) (155 / 2)) netOneNode
             (freshApp\<lparr>cf_prefs := Unparseable\<rparr>)) = Some SyntaxError"
    by (simp only: handleFindNearMe_unparseable [OF u] fst_conv)
  moreover have "loadPrefs (freshApp\<lparr>cf_prefs := Unparseable\<rparr>) = freshApp\<lparr>cf_prefs := Unparseable\<rparr>"
    by (rule loadPrefs_unparseable [OF u])
  ultimately show ?thesis by blast
qed

lemma loadPrefs_radius:
  assumes "cf_prefs st = Parses (JObj m)" and "m ''radius'' = Some r" and "r \<noteq> 0"
  shows "radiusSelect_value (loadPrefs st) = r"
proof -
  have pu: "radiusSelect_value (snd (placeOrUpdateUserMarker la lo (st\<lparr>radiusSelect_value := r\<rparr>))) = r"
    for la lo
    by (simp add: placeOrUpdateUserMarker_def placeOrUpdate_inner_def savePrefs_def
          split: sum.split)
  have rd: "readPrefs (cf_prefs st) = Inr (JObj m)"
    using assms(1) by (simp add: readPrefs_def)
  show ?thesis
  proof (cases "truthy_num (m ''lastLat'') \<and> truthy_num (m ''lastLng'')")
    case False
    then show ?thesis
      using assms(2,3) by (auto simp: loadPrefs_def rd truthy_num_def nullish_def Let_def)
  next
    case True
    then obtain la lo where ll: "m ''lastLat'' = Some la" "m ''lastLng'' = Some lo"
      by (auto simp: truthy_num_def split: option.splits)
    obtain e st2 where r: "placeOrUpdateUserMarker la lo (st\<lparr>radiusSelect_value := r\<rparr>) = (e, st2)"
      by (cases "placeOrUpdateUserMarker la lo (st\<lparr>radiusSelect_value := r\<rparr>)") blast
    with pu [of la lo] have "radiusSelect_value st2 = r" by simp
    with True ll r show ?thesis
      using assms(2,3)
      by (cases e) (simp_all add: loadPrefs_def rd truthy_num_def nullish_def Let_def)
  qed
qed

text \<open>
  Claim C8. When the stored text parses (or there is none), \<^verbatim>\<open>savePrefs\<close> does not throw
  and leaves the stored members overridden by those of the partial object, the partial
  one winning on a shared key. After saving a radius of 2000 the stored object holds that
  radius and the latitude and longitude it held before, and \<^verbatim>\<open>loadPrefs\<close> sets the radius
  control to 2000.
\<close>

theorem savePrefs_merges:
  assumes "readPrefs (cf_prefs st) = Inr p"
  shows "fst (savePrefs partial st) = None
       \<and> readPrefs (cf_prefs (snd (savePrefs partial st))) = Inr (JObj (spread p ++ partial))
       \<and> (\<forall>k. (spread p ++ partial) k = (case partial k of Some v \<Rightarrow> Some v | None \<Rightarrow> spread p k))
       \<and> (\<exists>m. readPrefs (cf_prefs (snd (savePrefs [''radius'' \<mapsto> 2000] st))) = Inr (JObj m)
              \<and> m ''radius'' = Some 2000
              \<and> m ''lastLat'' = spread p ''lastLat''
              \<and> m ''lastLng'' = spread p ''lastLng'')
       \<and> radiusSelect_value (loadPrefs (snd (savePrefs [''radius'' \<mapsto> 2000] st))) = 2000"
proof -
  have sv: "savePrefs q st = (None, st\<lparr>cf_prefs := Parses (JObj (spread p ++ q))\<rparr>)" for q
    using assms by (simp add: savePrefs_def)
  have a: "fst (savePrefs partial st) = None"
    by (simp add: sv)
  have b: "readPrefs (cf_prefs (snd (savePrefs q st))) = Inr (JObj (spread p ++ q))" for q
    by (simp add: sv readPrefs_def)
  have c: "(spread p ++ partial) k = (case partial k of Some v \<Rightarrow> Some v | None \<Rightarrow> spread p k)" for k
    by (simp add: map_add_def split: option.split)
  have d: "(spread p ++ [''radius'' \<mapsto> 2000]) ''radius'' = Some 2000"
    "(spread p ++ [''radius'' \<mapsto> 2000]) ''lastLat'' = spread p ''lastLat''"
    "(spread p ++ [''radius'' \<mapsto> 2000]) ''lastLng'' = spread p ''lastLng''"
    by (simp_all add: map_add_def)
  have e: "radiusSelect_value (loadPrefs (snd (savePrefs [''radius'' \<mapsto> 2000] st))) = 2000"
    unfolding sv snd_conv by (rule loadPrefs_radius [where m = "spread p ++ [''radius'' \<mapsto> 2000]"]) simp_all
  have ex: "\<exists>m. readPrefs (cf_prefs (snd (savePrefs [''radius'' \<mapsto> 2000] st))) = Inr (JObj m)
              \<and> m ''radius'' = Some 2000
              \<and> m ''lastLat'' = spread p ''lastLat''
              \<and> m ''lastLng'' = spread p ''lastLng''"
    by (intro exI [of _ "spread p ++ [''radius'' \<mapsto> 2000]"] conjI) (rule b d)+
  show ?thesis
    by (intro conjI allI) (rule a b c ex e)+
qed

theorem savePrefs_merges_witness:
  "readPrefs (cf_prefs appWithLocation) = Inr (JObj [''lastLat'' \<mapsto> 25 / 2, ''lastLng'' \<mapsto> 155 / 2])
   \<and> fst (savePrefs [''radius'' \<mapsto> 2000] appWithLocation) = None
   \<and> readPrefs (cf_prefs (snd (savePrefs [''radius'' \<mapsto> 2000] appWithLocation)))
       = Inr (JObj ([''lastLat'' \<mapsto> 25 / 2, ''lastLng'' \<mapsto> 155 / 2] ++ [''radius'' \<mapsto> 2000]))
   \<and> radiusSelect_value (loadPrefs (snd (savePrefs [''radius'' \<mapsto> 2000] appWithLocation))) = 2000"
proof -
  have r: "readPrefs (cf_prefs appWithLocation)
         = Inr (JObj [''lastLat'' \<mapsto> 25 / 2, ''lastLng'' \<mapsto> 155 / 2])"
    by (simp add: appWithLocation_def readPrefs_def)
  have sp: "spread (JObj [''lastLat'' \<mapsto> 25 / 2, ''lastLng'' \<mapsto> 155 / 2])
          = [''lastLat'' \<mapsto> 25 / 2, ''lastLng'' \<mapsto> 155 / 2]"
    by (simp add: spread_def)
  from savePrefs_merges [OF r, of "[''radius'' \<mapsto> 2000]"] r show ?thesis
    by (simp add: sp)
qed

section \<open>Rendering leaves the data alone\<close>

lemma renderMarkers_each_keeps:
  "allCafes (snd (renderMarkers_each cs st)) = allCafes st
   \<and> filteredCafes (snd (renderMarkers_each cs st)) = filteredCafes st
   \<and> searchInput_value (snd (renderMarkers_each cs st)) = searchInput_value st
   \<and> events (snd (renderMarkers_each cs st)) = events st
   \<and> resultSummary (snd (renderMarkers_each cs st)) = resultSummary st"
proof (induction cs arbitrary: st)
  case Nil
  show ?case by simp
next
  case (Cons c cs)
  show ?case
  proof (cases "markerFor (userMarker st) c")
    case (Inl e)
    then show ?thesis by simp
  next
    case (Inr m)
    then show ?thesis by (simp add: Cons.IH)
  qed
qed

lemma renderMarkers_keeps:
  "allCafes (snd (renderMarkers cs st)) = allCafes st
   \<and> filteredCafes (snd (renderMarkers cs st)) = filteredCafes st
   \<and> searchInput_value (snd (renderMarkers cs st)) = searchInput_value st
   \<and> events (snd (renderMarkers cs st)) = events st
   \<and> resultSummary (snd (renderMarkers cs st)) = resultSummary st"
  by (simp add: renderMarkers_def renderMarkers_each_keeps)

lemma markerFor_renderable: "(\<exists>m. markerFor u c = Inr m) = renderable c"
  by (auto simp: markerFor_def popupFor_def stars_def renderable_def
           split: option.splits sum.splits)

lemma renderMarkers_each_renderable:
  "fst (renderMarkers_each cs st) = None \<longleftrightarrow> list_all renderable cs"
proof (induction cs arbitrary: st)
  case Nil
  show ?case by simp
next
  case (Cons c cs)
  show ?case
  proof (cases "markerFor (userMarker st) c")
    case (Inl e)
    then have "\<not> renderable c"
      using markerFor_renderable [of "userMarker st" c] by simp
    with Inl show ?thesis by simp
  next
    case (Inr m)
    then have "renderable c"
      using markerFor_renderable [of "userMarker st" c] by simp
    with Inr show ?thesis by (simp add: Cons.IH)
  qed
qed

lemma renderList_each_keeps:
  "allCafes (renderList_each cs st) = allCafes st
   \<and> filteredCafes (renderList_each cs st) = filteredCafes st
   \<and> searchInput_value (renderList_each cs st) = searchInput_value st
   \<and> events (renderList_each cs st) = events st
   \<and> resultSummary (renderList_each cs st) = resultSummary st"
  by (induction cs arbitrary: st) simp_all

lemma renderList_keeps:
  "allCafes (renderList cs st) = allCafes st
   \<and> filteredCafes (renderList cs st) = filteredCafes st
   \<and> searchInput_value (renderList cs st) = searchInput_value st
   \<and> events (renderList cs st) = events st
   \<and> resultSummary (renderList cs st) = resultSummary st"
  by (simp add: renderList_def renderList_each_keeps Let_def)

lemma updateUI_keeps:
  "allCafes (snd (updateUI cafes from st)) = allCafes st
   \<and> filteredCafes (snd (updateUI cafes from st)) = cafes
   \<and> searchInput_value (snd (updateUI cafes from st)) = searchInput_value st
   \<and> events (snd (updateUI cafes from st)) = events st"
proof -
  let ?st1 = "st\<lparr>filteredCafes := cafes\<rparr>"
  obtain e st2 where r: "renderMarkers cafes ?st1 = (e, st2)"
    by (cases "renderMarkers cafes ?st1") blast
  have k: "allCafes st2 = allCafes st" "filteredCafes st2 = cafes"
    "searchInput_value st2 = searchInput_value st" "events st2 = events st"
    using renderMarkers_keeps [of cafes ?st1] r by simp_all
  show ?thesis
    using r k by (cases e) (simp_all add: updateUI_def Let_def renderList_keeps setSummary_def)
qed

lemma updateUI_renderable:
  "fst (updateUI cafes from st) = None \<longleftrightarrow> list_all renderable cafes"
proof -
  let ?st1 = "st\<lparr>filteredCafes := cafes\<rparr>"
  obtain e st2 where r: "renderMarkers cafes ?st1 = (e, st2)"
    by (cases "renderMarkers cafes ?st1") blast
  have "fst (renderMarkers cafes ?st1) = None \<longleftrightarrow> list_all renderable cafes"
    unfolding renderMarkers_def by (rule renderMarkers_each_renderable)
  with r have "e = None \<longleftrightarrow> list_all renderable cafes" by simp
  with r show ?thesis by (cases e) (simp_all add: updateUI_def Let_def)
qed
section \<open>What rendering shows\<close>

lemma renderMarkers_each_userMarker:
  "userMarker (snd (renderMarkers_each cs st)) = userMarker st
   \<and> cafeListEl (snd (renderMarkers_each cs st)) = cafeListEl st
   \<and> idToCard (snd (renderMarkers_each cs st)) = idToCard st"
proof (induction cs arbitrary: st)
  case Nil
  show ?case by simp
next
  case (Cons c cs)
  show ?case
    by (cases "markerFor (userMarker st) c") (simp_all add: Cons.IH)
qed

lemma renderMarkers_each_layer:
  "fst (renderMarkers_each cs st) = None \<Longrightarrow>
     map Inr (cafeLayer (snd (renderMarkers_each cs st)))
       = map Inr (cafeLayer st) @ map (markerFor (userMarker st)) cs"
proof (induction cs arbitrary: st)
  case Nil
  show ?case by simp
next
  case (Cons c cs)
  show ?case
  proof (cases "markerFor (userMarker st) c")
    case (Inl e)
    with Cons.prems show ?thesis by simp
  next
    case (Inr m)
    with Cons.prems Cons.IH [of "st\<lparr>cafeLayer := cafeLayer st @ [m],
                                    idToMarker := (idToMarker st)(cid c \<mapsto> m)\<rparr>"]
    show ?thesis by simp
  qed
qed

lemma renderList_each_shown:
  "cafeListEl (renderList_each cs st) = cafeListEl st @ map (\<lambda>c. CardEl (cid c)) cs
   \<and> idToCard (renderList_each cs st) = idToCard st ++ cardsFor cs
   \<and> cafeLayer (renderList_each cs st) = cafeLayer st
   \<and> userMarker (renderList_each cs st) = userMarker st"
proof (induction cs arbitrary: st)
  case Nil
  show ?case by (simp add: cardsFor_def)
next
  case (Cons c cs)
  let ?st' = "st\<lparr>cafeListEl := cafeListEl st @ [CardEl (cid c)],
                 idToCard := (idToCard st)(cid c \<mapsto> cardFor c)\<rparr>"
  have h: "(idToCard st)(cid c \<mapsto> cardFor c) ++ cardsFor cs = idToCard st ++ cardsFor (c # cs)"
  proof -
    have "cardsFor (c # cs) = [cid c \<mapsto> cardFor c] ++ cardsFor cs"
      by (simp add: cardsFor_def map_of_append)
    moreover have "(idToCard st)(cid c \<mapsto> cardFor c) = idToCard st ++ [cid c \<mapsto> cardFor c]"
      by simp
    ultimately show ?thesis by (simp only: map_add_assoc)
  qed
  have a: "idToCard ?st' = (idToCard st)(cid c \<mapsto> cardFor c)"
    by simp
  have "idToCard (renderList_each (c # cs) st) = idToCard ?st' ++ cardsFor cs"
    by (simp only: renderList_each.simps Cons.IH)
  then have cards: "idToCard (renderList_each (c # cs) st) = idToCard st ++ cardsFor (c # cs)"
    by (simp only: a h)
  have rest: "cafeListEl (renderList_each (c # cs) st)
                = cafeListEl st @ map (\<lambda>c. CardEl (cid c)) (c # cs)"
    "cafeLayer (renderList_each (c # cs) st) = cafeLayer st"
    "userMarker (renderList_each (c # cs) st) = userMarker st"
    by (simp_all add: Cons.IH)
  from cards rest show ?case by blast
qed

lemma renderList_shown:
  "cafeListEl (renderList cs st) = listFor cs
   \<and> idToCard (renderList cs st) = cardsFor cs
   \<and> cafeLayer (renderList cs st) = cafeLayer st
   \<and> userMarker (renderList cs st) = userMarker st"
  by (simp add: renderList_def Let_def listFor_def renderList_each_shown cardsFor_def)

lemma showing_summary: "showing (setSummary t st) cafes = showing st cafes"
  by (simp add: showing_def setSummary_def)

lemma showing_spinner: "showing (showSpinner b st) cafes = showing st cafes"
  by (simp add: showing_def showSpinner_def split: option.split)

lemma showing_events: "showing (st\<lparr>events := ev\<rparr>) cafes = showing st cafes"
  by (simp add: showing_def)

lemma updateUI_showing:
  assumes "fst (updateUI cafes from st) = None"
  shows "showing (snd (updateUI cafes from st)) cafes"
proof -
  let ?st1 = "st\<lparr>filteredCafes := cafes\<rparr>"
  obtain e st2 where r: "renderMarkers cafes ?st1 = (e, st2)"
    by (cases "renderMarkers cafes ?st1") blast
  with assms have e: "e = None"
    by (cases e) (simp_all add: updateUI_def Let_def)
  have f: "filteredCafes st2 = cafes"
    using renderMarkers_keeps [of cafes ?st1] r by simp
  have "fst (renderMarkers_each cafes (?st1\<lparr>cafeLayer := [], idToMarker := Map.empty\<rparr>)) = None"
    using r e by (simp add: renderMarkers_def)
  from renderMarkers_each_layer [OF this] r
  have layer: "map Inr (cafeLayer st2) = map (markerFor (userMarker st)) cafes"
    by (simp add: renderMarkers_def)
  have um: "userMarker st2 = userMarker st"
    using renderMarkers_each_userMarker
            [of cafes "?st1\<lparr>cafeLayer := [], idToMarker := Map.empty\<rparr>"] r
    by (simp add: renderMarkers_def)
  have "showing (renderList cafes st2) cafes"
    by (simp add: showing_def renderList_shown layer um)
  with r e f show ?thesis
    by (simp add: updateUI_def Let_def showing_summary)
qed

section \<open>Search\<close>

lemma includes_str_sublist: "includes_str s q = sublist q s"
  by (induction s) (simp_all add: sublist_Cons_right)

lemma includes_str_occurs: "includes_str s q = occurs_in q s"
  by (simp add: includes_str_sublist sublist_def occurs_in_def)

lemma matchesQuery_occurs:
  "matchesQuery q c =
     (occurs_in q (toLowerCase (case name c of None \<Rightarrow> [] | Some n \<Rightarrow> n))
      \<or> occurs_in q (toLowerCase (area c)))"
proof -
  have n: "toLowerCase (str_or (name c) []) = toLowerCase (case name c of None \<Rightarrow> [] | Some n \<Rightarrow> n)"
    by (simp add: str_or_def split: option.split)
  have a: "str_or (Some (area c)) [] = area c"
    by (simp add: str_or_def)
  show ?thesis
    by (simp only: matchesQuery_def includes_str_occurs n a)
qed

lemma filteredCafes_handleSearchInput:
  "filteredCafes (snd (handleSearchInput st)) =
     (if toLowerCase (trim (searchInput_value st)) = [] then allCafes st
      else filter (matchesQuery (toLowerCase (trim (searchInput_value st)))) (allCafes st))"
proof -
  have u: "filteredCafes (snd (case updateUI cs ''search'' st of
               (Some e, st1) \<Rightarrow> (Some e, st1)
             | (None, st1) \<Rightarrow> (None, setSummary (t st1) st1))) = cs" for cs t
    using updateUI_keeps [of cs "''search''" st]
    by (cases "updateUI cs ''search'' st"; cases "fst (updateUI cs ''search'' st)")
       (simp_all add: setSummary_def)
  show ?thesis
    by (simp only: handleSearchInput_def Let_def u if_distrib [of snd] if_distrib [of filteredCafes])
qed

lemma handleSearchInput_keeps:
  "allCafes (snd (handleSearchInput st)) = allCafes st
   \<and> searchInput_value (snd (handleSearchInput st)) = searchInput_value st"
proof -
  have u: "allCafes (snd (case updateUI cs ''search'' st of
               (Some e, st1) \<Rightarrow> (Some e, st1)
             | (None, st1) \<Rightarrow> (None, setSummary (t st1) st1))) = allCafes st
         \<and> searchInput_value (snd (case updateUI cs ''search'' st of
               (Some e, st1) \<Rightarrow> (Some e, st1)
             | (None, st1) \<Rightarrow> (None, setSummary (t st1) st1))) = searchInput_value st" for cs t
    using updateUI_keeps [of cs "''search''" st]
    by (cases "updateUI cs ''search'' st"; cases "fst (updateUI cs ''search'' st)")
       (simp_all add: setSummary_def)
  show ?thesis
    by (simp only: handleSearchInput_def Let_def u if_distrib [of snd] if_distrib [of allCafes]
          if_distrib [of searchInput_value] if_cancel simp_thms)
qed

lemma handleSearchInput_spec:
  "filteredCafes (snd (handleSearchInput st)) = spec_filter (allCafes st) (searchInput_value st)"
proof -
  have "matchesQuery q = (\<lambda>c. occurs_in q (toLowerCase (case name c of None \<Rightarrow> [] | Some n \<Rightarrow> n))
                        \<or> occurs_in q (toLowerCase (area c)))" for q
    by (rule ext) (rule matchesQuery_occurs)
  then show ?thesis
    by (simp only: filteredCafes_handleSearchInput spec_filter_def Let_def)
qed

text \<open>
  Claim C4. The list that \<^verbatim>\<open>handleSearchInput\<close> shows is the specified filter of the
  canonical list: the whole list for a query that is empty once trimmed, and otherwise
  the records whose lower-cased name or area contains the trimmed, lower-cased query, in
  their input order. The match depends on no field but name and area.
\<close>

theorem handleSearchInput_filters:
  "filteredCafes (snd (handleSearchInput st)) = spec_filter (allCafes st) (searchInput_value st)
   \<and> (toLowerCase (trim (searchInput_value st)) = [] \<longrightarrow>
         filteredCafes (snd (handleSearchInput st)) = allCafes st)
   \<and> subseq (filteredCafes (snd (handleSearchInput st))) (allCafes st)
   \<and> (\<forall>q c c'. name c' = name c \<and> area c' = area c \<longrightarrow> matchesQuery q c' = matchesQuery q c)"
proof (intro conjI allI impI)
  show "filteredCafes (snd (handleSearchInput st)) = spec_filter (allCafes st) (searchInput_value st)"
    by (rule handleSearchInput_spec)
  show "filteredCafes (snd (handleSearchInput st)) = allCafes st"
    if "toLowerCase (trim (searchInput_value st)) = []"
    using that by (simp add: filteredCafes_handleSearchInput)
  show "subseq (filteredCafes (snd (handleSearchInput st))) (allCafes st)"
    by (simp add: filteredCafes_handleSearchInput)
  show "matchesQuery q c' = matchesQuery q c" if "name c' = name c \<and> area c' = area c" for q c c'
    using that by (simp add: matchesQuery_def)
qed

lemma lower_alpha: "toLowerCase (trim ''  ALPHA '') = ''alpha''"
  by code_simp

lemma lower_names:
  "toLowerCase ''Alpha Beans'' = ''alpha beans''" "toLowerCase ''Brew Lab'' = ''brew lab''"
  "toLowerCase ''Corner'' = ''corner''" "toLowerCase ''North'' = ''north''"
  "toLowerCase ''Alphaville'' = ''alphaville''" "toLowerCase ''South'' = ''south''"
  by code_simp+

lemma sample_matches:
  "matchesQuery ''alpha'' cafeA" "matchesQuery ''alpha'' cafeB" "\<not> matchesQuery ''alpha'' cafeFar"
  by (simp_all add: matchesQuery_def cafeA_def cafeB_def cafeFar_def str_or_def lower_names)

theorem handleSearchInput_filters_witness:
  "toLowerCase (trim (searchInput_value appSearching)) = ''alpha''
   \<and> filteredCafes (snd (handleSearchInput appSearching)) = [cafeA, cafeB]
   \<and> spec_filter (allCafes appSearching) (searchInput_value appSearching) = [cafeA, cafeB]
   \<and> filteredCafes (snd (handleSearchInput freshApp)) = allCafes freshApp"
proof -
  have q: "toLowerCase (trim (searchInput_value appSearching)) = ''alpha''"
    by (simp add: appSearching_def lower_alpha)
  have f: "filteredCafes (snd (handleSearchInput appSearching)) = [cafeA, cafeB]"
    by (simp add: filteredCafes_handleSearchInput q sample_matches) (simp add: appSearching_def sample_matches)
  have e: "toLowerCase (trim (searchInput_value freshApp)) = []"
    by (simp add: freshApp_def toLowerCase_def trim_def)
  from handleSearchInput_filters [of appSearching] f
  have s: "spec_filter (allCafes appSearching) (searchInput_value appSearching) = [cafeA, cafeB]"
    by simp
  from handleSearchInput_filters [of freshApp] e
  have i: "filteredCafes (snd (handleSearchInput freshApp)) = allCafes freshApp"
    by blast
  from q f s i show ?thesis by blast
qed

section \<open>Fetching with fallback\<close>

lemma renderable_withDistance: "renderable (withDistance ar a b c) = renderable c"
  by (simp add: renderable_def withDistance_def)

lemma attachDistances_renderable:
  "list_all renderable (attachDistances ar cs a b) = list_all renderable cs"
  by (simp add: list_all_iff attachDistances_def set_Array_sort renderable_withDistance)

lemma showSpinner_keeps:
  "allCafes (showSpinner b st) = allCafes st"
  "filteredCafes (showSpinner b st) = filteredCafes st"
  "searchInput_value (showSpinner b st) = searchInput_value st"
  "events (showSpinner b st) = events st"
  "resultSummary (showSpinner b st) = resultSummary st"
  by (simp_all add: showSpinner_def split: option.split)

lemma primaryError_cases:
  "overpass net la lo r = Rejected \<Longrightarrow> primaryError net la lo r = Some NetworkError"
  "overpass net la lo r = Response False status body \<Longrightarrow>
     primaryError net la lo r = Some (OverpassError status)"
  "fetchOverpassCafes net la lo r = Inr [] \<Longrightarrow> primaryError net la lo r = Some NoOverpassResults"
  by (simp_all add: primaryError_def fetchOverpassCafes_def)

lemma primaryError_None:
  "primaryError net la lo r = None \<Longrightarrow>
     \<exists>cafes. fetchOverpassCafes net la lo r = Inr cafes \<and> cafes \<noteq> []"
  by (auto simp: primaryError_def split: sum.splits if_splits)

lemma tryOverpass_error:
  assumes "primaryError net la lo r = Some err"
  shows "fst (tryOverpass ar net la lo r st) = Some err
       \<and> allCafes (snd (tryOverpass ar net la lo r st)) = allCafes st
       \<and> filteredCafes (snd (tryOverpass ar net la lo r st)) = filteredCafes st
       \<and> searchInput_value (snd (tryOverpass ar net la lo r st)) = searchInput_value st
       \<and> events (snd (tryOverpass ar net la lo r st)) = events st @ [FetchOverpass la lo r]"
  using assms
  by (cases "fetchOverpassCafes net la lo r")
     (auto simp: primaryError_def tryOverpass_def Let_def showSpinner_keeps setSummary_def
           split: if_splits)

lemma tryOverpass_fetched:
  assumes f: "fetchOverpassCafes net la lo r = Inr cafes" and ne: "cafes \<noteq> []"
  shows "(fst (tryOverpass ar net la lo r st) = None \<longleftrightarrow> list_all renderable cafes)
       \<and> allCafes (snd (tryOverpass ar net la lo r st)) = attachDistances ar cafes la lo
       \<and> filteredCafes (snd (tryOverpass ar net la lo r st)) = attachDistances ar cafes la lo
       \<and> searchInput_value (snd (tryOverpass ar net la lo r st)) = searchInput_value st
       \<and> events (snd (tryOverpass ar net la lo r st)) = events st @ [FetchOverpass la lo r]
       \<and> (fst (tryOverpass ar net la lo r st) = None \<longrightarrow>
            showing (snd (tryOverpass ar net la lo r st)) (attachDistances ar cafes la lo))"
proof -
  define st4 where "st4 =
    (setSummary (''Searching nearby cafes'' @ ellipsis) (showSpinner True st))
      \<lparr>events := events st @ [FetchOverpass la lo r],
       allCafes := attachDistances ar cafes la lo\<rparr>"
  have t: "tryOverpass ar net la lo r st = updateUI (attachDistances ar cafes la lo) ''fetch'' st4"
    using f ne by (simp add: tryOverpass_def Let_def showSpinner_keeps setSummary_def st4_def)
  have k: "allCafes st4 = attachDistances ar cafes la lo"
    "searchInput_value st4 = searchInput_value st"
    "events st4 = events st @ [FetchOverpass la lo r]"
    by (simp_all add: st4_def setSummary_def showSpinner_keeps)
  from updateUI_renderable [of "attachDistances ar cafes la lo" "''fetch''" st4]
       updateUI_keeps [of "attachDistances ar cafes la lo" "''fetch''" st4]
       updateUI_showing [of "attachDistances ar cafes la lo" "''fetch''" st4]
  show ?thesis
    by (simp add: t k attachDistances_renderable)
qed

lemma tryOverpass_events:
  "events (snd (tryOverpass ar net la lo r st)) = events st @ [FetchOverpass la lo r]
   \<and> searchInput_value (snd (tryOverpass ar net la lo r st)) = searchInput_value st"
proof (cases "primaryError net la lo r")
  case None
  from primaryError_None [OF this] obtain cafes
    where "fetchOverpassCafes net la lo r = Inr cafes" "cafes \<noteq> []" by blast
  from tryOverpass_fetched [OF this] show ?thesis by simp
next
  case (Some err)
  from tryOverpass_error [OF this] show ?thesis by simp
qed

lemma tryOverpass_changes:
  "(allCafes (snd (tryOverpass ar net la lo r st)) = allCafes st
      \<and> filteredCafes (snd (tryOverpass ar net la lo r st)) = filteredCafes st)
   \<or> filteredCafes (snd (tryOverpass ar net la lo r st))
       = allCafes (snd (tryOverpass ar net la lo r st))"
proof (cases "primaryError net la lo r")
  case None
  from primaryError_None [OF this] obtain cafes
    where "fetchOverpassCafes net la lo r = Inr cafes" "cafes \<noteq> []" by blast
  from tryOverpass_fetched [OF this] show ?thesis by simp
next
  case (Some err)
  from tryOverpass_error [OF this] show ?thesis by simp
qed

lemma tryFallback_error:
  assumes "loadFallbackCafes net = Inl e2"
  shows "tryFallback ar net la lo st = (Some e2, st\<lparr>events := events st @ [FetchFallback]\<rparr>)"
  using assms by (simp add: tryFallback_def)

lemma tryFallback_loaded:
  assumes l: "loadFallbackCafes net = Inr fb"
  shows "(fst (tryFallback ar net la lo st) = None \<longleftrightarrow> list_all renderable fb)
       \<and> allCafes (snd (tryFallback ar net la lo st)) = attachDistances ar fb la lo
       \<and> filteredCafes (snd (tryFallback ar net la lo st)) = attachDistances ar fb la lo
       \<and> searchInput_value (snd (tryFallback ar net la lo st)) = searchInput_value st
       \<and> events (snd (tryFallback ar net la lo st)) = events st @ [FetchFallback]
       \<and> (fst (tryFallback ar net la lo st) = None \<longrightarrow>
            showing (snd (tryFallback ar net la lo st)) (attachDistances ar fb la lo)
            \<and> resultSummary (snd (tryFallback ar net la lo st)) = ''Showing fallback cafes'')"
proof -
  define st2 where "st2 =
    st\<lparr>events := events st @ [FetchFallback], allCafes := attachDistances ar fb la lo\<rparr>"
  obtain e st3 where u: "updateUI (attachDistances ar fb la lo) ''fetch'' st2 = (e, st3)"
    by (cases "updateUI (attachDistances ar fb la lo) ''fetch'' st2") blast
  have t: "tryFallback ar net la lo st
         = (case e of Some x \<Rightarrow> (Some x, st3)
            | None \<Rightarrow> (None, setSummary ''Showing fallback cafes'' st3))"
    using l u by (cases e) (simp_all add: tryFallback_def Let_def st2_def)
  have k: "allCafes st2 = attachDistances ar fb la lo"
    "searchInput_value st2 = searchInput_value st"
    "events st2 = events st @ [FetchFallback]"
    by (simp_all add: st2_def)
  from updateUI_renderable [of "attachDistances ar fb la lo" "''fetch''" st2]
       updateUI_keeps [of "attachDistances ar fb la lo" "''fetch''" st2]
       updateUI_showing [of "attachDistances ar fb la lo" "''fetch''" st2]
  show ?thesis
    using u
    by (cases e) (simp_all add: t k attachDistances_renderable setSummary_def showing_summary
                     [unfolded setSummary_def])
qed

lemma tryFallback_events:
  "events (snd (tryFallback ar net la lo st)) = events st @ [FetchFallback]
   \<and> searchInput_value (snd (tryFallback ar net la lo st)) = searchInput_value st"
proof (cases "loadFallbackCafes net")
  case (Inl e2)
  then show ?thesis by (simp add: tryFallback_error)
next
  case (Inr fb)
  from tryFallback_loaded [OF this] show ?thesis by simp
qed

lemma searchAround_done:
  assumes "fst (tryOverpass ar net la lo r st) = None"
  shows "searchAround ar net la lo r st = showSpinner False (snd (tryOverpass ar net la lo r st))"
  using assms by (cases "tryOverpass ar net la lo r st") (simp add: searchAround_def)

lemma searchAround_secondary:
  assumes p: "fst (tryOverpass ar net la lo r st) = Some err"
  shows "searchAround ar net la lo r st =
           showSpinner False
             (case tryFallback ar net la lo
                     ((snd (tryOverpass ar net la lo r st))
                        \<lparr>events := events st @ [FetchOverpass la lo r, ConsoleWarn err]\<rparr>) of
                (None, st2) \<Rightarrow> st2
              | (Some e2, st2) \<Rightarrow>
                  (setSummary ''Could not load cafes.'' st2)
                    \<lparr>events := events st2 @ [ConsoleError e2]\<rparr>)"
proof -
  obtain e st1 where t: "tryOverpass ar net la lo r st = (e, st1)"
    by (cases "tryOverpass ar net la lo r st") blast
  with p tryOverpass_events [of ar net la lo r st] have "e = Some err"
    and "events st1 = events st @ [FetchOverpass la lo r]"
    by simp_all
  with t show ?thesis
    by (simp add: searchAround_def Let_def setSummary_def split: prod.split option.split)
qed

lemma searchAround_fallback_fails:
  assumes p: "fst (tryOverpass ar net la lo r st) = Some err"
    and l: "loadFallbackCafes net = Inl e2"
  shows "events (searchAround ar net la lo r st)
           = events st @ [FetchOverpass la lo r, ConsoleWarn err, FetchFallback, ConsoleError e2]
       \<and> resultSummary (searchAround ar net la lo r st) = ''Could not load cafes.''
       \<and> allCafes (searchAround ar net la lo r st) = allCafes (snd (tryOverpass ar net la lo r st))
       \<and> filteredCafes (searchAround ar net la lo r st)
           = filteredCafes (snd (tryOverpass ar net la lo r st))"
  by (simp add: searchAround_secondary [OF p] tryFallback_error [OF l] showSpinner_keeps
        setSummary_def)

lemma searchAround_fallback_loaded:
  assumes p: "fst (tryOverpass ar net la lo r st) = Some err"
    and l: "loadFallbackCafes net = Inr fb"
  shows "allCafes (searchAround ar net la lo r st) = attachDistances ar fb la lo
       \<and> filteredCafes (searchAround ar net la lo r st) = attachDistances ar fb la lo
       \<and> (list_all renderable fb \<longrightarrow>
            events (searchAround ar net la lo r st)
              = events st @ [FetchOverpass la lo r, ConsoleWarn err, FetchFallback]
            \<and> resultSummary (searchAround ar net la lo r st) = ''Showing fallback cafes''
            \<and> showing (searchAround ar net la lo r st) (attachDistances ar fb la lo))"
proof -
  define st1 where "st1 = (snd (tryOverpass ar net la lo r st))
                \<lparr>events := events st @ [FetchOverpass la lo r, ConsoleWarn err]\<rparr>"
  obtain e st2 where t: "tryFallback ar net la lo st1 = (e, st2)"
    by (cases "tryFallback ar net la lo st1") blast
  have s: "searchAround ar net la lo r st =
             showSpinner False
               (case e of None \<Rightarrow> st2
                | Some e2 \<Rightarrow> (setSummary ''Could not load cafes.'' st2)
                                 \<lparr>events := events st2 @ [ConsoleError e2]\<rparr>)"
    using t by (cases e) (simp_all add: searchAround_secondary [OF p] st1_def [symmetric])
  have ev1: "events st1 = events st @ [FetchOverpass la lo r, ConsoleWarn err]"
    by (simp add: st1_def)
  from tryFallback_loaded [OF l, of ar la lo st1] t ev1
  have f: "(e = None \<longleftrightarrow> list_all renderable fb)"
    "allCafes st2 = attachDistances ar fb la lo"
    "filteredCafes st2 = attachDistances ar fb la lo"
    "events st2 = events st @ [FetchOverpass la lo r, ConsoleWarn err, FetchFallback]"
    "e = None \<longrightarrow> showing st2 (attachDistances ar fb la lo)
                 \<and> resultSummary st2 = ''Showing fallback cafes''"
    by simp_all
  show ?thesis
    using f
    by (cases e) (simp_all add: s showSpinner_keeps showing_spinner setSummary_def)
qed

lemma searchAround_secondary_events:
  assumes p: "fst (tryOverpass ar net la lo r st) = Some err"
  shows "\<exists>rest. events (searchAround ar net la lo r st)
                  = events st @ [FetchOverpass la lo r, ConsoleWarn err, FetchFallback] @ rest
               \<and> (rest = [] \<or> (\<exists>e2. rest = [ConsoleError e2]))"
proof -
  define st1 where "st1 = (snd (tryOverpass ar net la lo r st))
                \<lparr>events := events st @ [FetchOverpass la lo r, ConsoleWarn err]\<rparr>"
  obtain e st2 where t: "tryFallback ar net la lo st1 = (e, st2)"
    by (cases "tryFallback ar net la lo st1") blast
  have ev1: "events st1 = events st @ [FetchOverpass la lo r, ConsoleWarn err]"
    by (simp add: st1_def)
  with tryFallback_events [of ar net la lo st1] t
  have ev: "events st2 = events st @ [FetchOverpass la lo r, ConsoleWarn err, FetchFallback]"
    by simp
  show ?thesis
  proof (cases e)
    case None
    with t ev have "events (searchAround ar net la lo r st)
        = events st @ [FetchOverpass la lo r, ConsoleWarn err, FetchFallback] @ []"
      by (simp add: searchAround_secondary [OF p] st1_def [symmetric] showSpinner_keeps)
    then show ?thesis by blast
  next
    case (Some e2)
    with t ev have "events (searchAround ar net la lo r st)
        = events st @ [FetchOverpass la lo r, ConsoleWarn err, FetchFallback] @ [ConsoleError e2]"
      by (simp add: searchAround_secondary [OF p] st1_def [symmetric] showSpinner_keeps
            setSummary_def)
    then show ?thesis by blast
  qed
qed

lemma searchAround_searchInput:
  "searchInput_value (searchAround ar net la lo r st) = searchInput_value st"
proof (cases "fst (tryOverpass ar net la lo r st)")
  case None
  then show ?thesis
    using tryOverpass_events [of ar net la lo r st]
    by (simp add: searchAround_done showSpinner_keeps)
next
  case (Some err)
  define st1 where "st1 = (snd (tryOverpass ar net la lo r st))
                \<lparr>events := events st @ [FetchOverpass la lo r, ConsoleWarn err]\<rparr>"
  obtain e st2 where t: "tryFallback ar net la lo st1 = (e, st2)"
    by (cases "tryFallback ar net la lo st1") blast
  have "searchInput_value st1 = searchInput_value st"
    using tryOverpass_events [of ar net la lo r st] by (simp add: st1_def)
  with tryFallback_events [of ar net la lo st1] t
  have "searchInput_value st2 = searchInput_value st"
    by simp
  with t show ?thesis
    by (cases e)
       (simp_all add: searchAround_secondary [OF Some] st1_def [symmetric] showSpinner_keeps
          setSummary_def)
qed

lemma searchAround_events:
  "\<exists>rest. events (searchAround ar net la lo r st) = events st @ FetchOverpass la lo r # rest
         \<and> (rest = []
            \<or> (\<exists>err. rest = [ConsoleWarn err, FetchFallback])
            \<or> (\<exists>err e2. rest = [ConsoleWarn err, FetchFallback, ConsoleError e2]))"
proof (cases "fst (tryOverpass ar net la lo r st)")
  case None
  then have "events (searchAround ar net la lo r st) = events st @ FetchOverpass la lo r # []"
    using tryOverpass_events [of ar net la lo r st]
    by (simp add: searchAround_done showSpinner_keeps)
  then show ?thesis by blast
next
  case (Some err)
  from searchAround_secondary_events [OF Some] obtain rest where
    "events (searchAround ar net la lo r st)
       = events st @ [FetchOverpass la lo r, ConsoleWarn err, FetchFallback] @ rest"
    "rest = [] \<or> (\<exists>e2. rest = [ConsoleError e2])"
    by blast
  then have "events (searchAround ar net la lo r st)
       = events st @ FetchOverpass la lo r # ([ConsoleWarn err, FetchFallback] @ rest)
     \<and> ([ConsoleWarn err, FetchFallback] @ rest = [ConsoleWarn err, FetchFallback]
        \<or> (\<exists>e2. [ConsoleWarn err, FetchFallback] @ rest
                   = [ConsoleWarn err, FetchFallback, ConsoleError e2]))"
    by auto
  then show ?thesis by blast
qed

text \<open>
  Claim C1. The workflow first queries Overpass, and makes at most one more request, the
  load of the fallback file. A rejected request, a response that is not ok and an empty
  result each end the primary attempt with an exception, and whenever the primary attempt
  ends with an exception the fallback file is loaded next. If that load fails, the summary
  reads \<^verbatim>\<open>Could not load cafes.\<close>, the error is logged and nothing further is requested;
  after a transport or HTTP error or an empty result the canonical and the filtered list
  are then as before.
\<close>

theorem searchAround_fallback_policy:
  "(\<exists>rest. events (searchAround ar net la lo r st) = events st @ FetchOverpass la lo r # rest
          \<and> (rest = []
             \<or> (\<exists>err. rest = [ConsoleWarn err, FetchFallback])
             \<or> (\<exists>err e2. rest = [ConsoleWarn err, FetchFallback, ConsoleError e2])))
   \<and> (overpass net la lo r = Rejected \<longrightarrow> primaryError net la lo r = Some NetworkError)
   \<and> (\<forall>status body. overpass net la lo r = Response False status body \<longrightarrow>
          primaryError net la lo r = Some (OverpassError status))
   \<and> (fetchOverpassCafes net la lo r = Inr [] \<longrightarrow>
          primaryError net la lo r = Some NoOverpassResults)
   \<and> (\<forall>err. primaryError net la lo r = Some err \<longrightarrow>
          fst (tryOverpass ar net la lo r st) = Some err)
   \<and> (\<forall>err. fst (tryOverpass ar net la lo r st) = Some err \<longrightarrow>
          (\<exists>rest. events (searchAround ar net la lo r st)
                    = events st @ [FetchOverpass la lo r, ConsoleWarn err, FetchFallback] @ rest
                  \<and> (rest = [] \<or> (\<exists>e2. rest = [ConsoleError e2]))))
   \<and> (\<forall>err fb. fst (tryOverpass ar net la lo r st) = Some err
                  \<and> loadFallbackCafes net = Inr fb \<longrightarrow>
          allCafes (searchAround ar net la lo r st) = attachDistances ar fb la lo
          \<and> (list_all renderable fb \<longrightarrow>
                events (searchAround ar net la lo r st)
                  = events st @ [FetchOverpass la lo r, ConsoleWarn err, FetchFallback]
                \<and> resultSummary (searchAround ar net la lo r st) = ''Showing fallback cafes''))
   \<and> (\<forall>err e2. fst (tryOverpass ar net la lo r st) = Some err
                  \<and> loadFallbackCafes net = Inl e2 \<longrightarrow>
          events (searchAround ar net la lo r st)
            = events st @ [FetchOverpass la lo r, ConsoleWarn err, FetchFallback, ConsoleError e2]
          \<and> resultSummary (searchAround ar net la lo r st) = ''Could not load cafes.'')
   \<and> (\<forall>err e2. primaryError net la lo r = Some err \<and> loadFallbackCafes net = Inl e2 \<longrightarrow>
          allCafes (searchAround ar net la lo r st) = allCafes st
          \<and> filteredCafes (searchAround ar net la lo r st) = filteredCafes st)"
proof -
  have c1: "\<exists>rest. events (searchAround ar net la lo r st) = events st @ FetchOverpass la lo r # rest
          \<and> (rest = []
             \<or> (\<exists>err. rest = [ConsoleWarn err, FetchFallback])
             \<or> (\<exists>err e2. rest = [ConsoleWarn err, FetchFallback, ConsoleError e2]))"
    by (rule searchAround_events)
  have c2: "overpass net la lo r = Rejected \<longrightarrow> primaryError net la lo r = Some NetworkError"
    by (simp add: primaryError_cases)
  have c3: "\<forall>status body. overpass net la lo r = Response False status body \<longrightarrow>
          primaryError net la lo r = Some (OverpassError status)"
    by (simp add: primaryError_cases)
  have c4: "fetchOverpassCafes net la lo r = Inr [] \<longrightarrow>
          primaryError net la lo r = Some NoOverpassResults"
    by (simp add: primaryError_cases)
  have c5: "\<forall>err. primaryError net la lo r = Some err \<longrightarrow>
          fst (tryOverpass ar net la lo r st) = Some err"
    using tryOverpass_error [of net la lo r _ ar st] by blast
  have c6: "\<forall>err. fst (tryOverpass ar net la lo r st) = Some err \<longrightarrow>
          (\<exists>rest. events (searchAround ar net la lo r st)
                    = events st @ [FetchOverpass la lo r, ConsoleWarn err, FetchFallback] @ rest
                  \<and> (rest = [] \<or> (\<exists>e2. rest = [ConsoleError e2])))"
    using searchAround_secondary_events [of ar net la lo r st] by blast
  have c7: "\<forall>err fb. fst (tryOverpass ar net la lo r st) = Some err
                  \<and> loadFallbackCafes net = Inr fb \<longrightarrow>
          allCafes (searchAround ar net la lo r st) = attachDistances ar fb la lo
          \<and> (list_all renderable fb \<longrightarrow>
                events (searchAround ar net la lo r st)
                  = events st @ [FetchOverpass la lo r, ConsoleWarn err, FetchFallback]
                \<and> resultSummary (searchAround ar net la lo r st) = ''Showing fallback cafes'')"
  proof (intro allI impI)
    fix err fb
    assume "fst (tryOverpass ar net la lo r st) = Some err \<and> loadFallbackCafes net = Inr fb"
    then have "fst (tryOverpass ar net la lo r st) = Some err" "loadFallbackCafes net = Inr fb"
      by simp_all
    from searchAround_fallback_loaded [OF this]
    show "allCafes (searchAround ar net la lo r st) = attachDistances ar fb la lo
          \<and> (list_all renderable fb \<longrightarrow>
                events (searchAround ar net la lo r st)
                  = events st @ [FetchOverpass la lo r, ConsoleWarn err, FetchFallback]
                \<and> resultSummary (searchAround ar net la lo r st) = ''Showing fallback cafes'')"
      by simp
  qed
  have c8: "\<forall>err e2. fst (tryOverpass ar net la lo r st) = Some err
                  \<and> loadFallbackCafes net = Inl e2 \<longrightarrow>
          events (searchAround ar net la lo r st)
            = events st @ [FetchOverpass la lo r, ConsoleWarn err, FetchFallback, ConsoleError e2]
          \<and> resultSummary (searchAround ar net la lo r st) = ''Could not load cafes.''"
  proof (intro allI impI)
    fix err e2
    assume "fst (tryOverpass ar net la lo r st) = Some err \<and> loadFallbackCafes net = Inl e2"
    then have "fst (tryOverpass ar net la lo r st) = Some err" "loadFallbackCafes net = Inl e2"
      by simp_all
    from searchAround_fallback_fails [OF this]
    show "events (searchAround ar net la lo r st)
            = events st @ [FetchOverpass la lo r, ConsoleWarn err, FetchFallback, ConsoleError e2]
          \<and> resultSummary (searchAround ar net la lo r st) = ''Could not load cafes.''"
      by simp
  qed
  have c9: "\<forall>err e2. primaryError net la lo r = Some err \<and> loadFallbackCafes net = Inl e2 \<longrightarrow>
          allCafes (searchAround ar net la lo r st) = allCafes st
          \<and> filteredCafes (searchAround ar net la lo r st) = filteredCafes st"
  proof (intro allI impI)
    fix err e2
    assume a: "primaryError net la lo r = Some err \<and> loadFallbackCafes net = Inl e2"
    then have p: "primaryError net la lo r = Some err" and l: "loadFallbackCafes net = Inl e2"
      by simp_all
    from tryOverpass_error [OF p, of ar st]
    have t: "fst (tryOverpass ar net la lo r st) = Some err"
      "allCafes (snd (tryOverpass ar net la lo r st)) = allCafes st"
      "filteredCafes (snd (tryOverpass ar net la lo r st)) = filteredCafes st"
      by simp_all
    from searchAround_fallback_fails [OF t(1) l] t(2,3)
    show "allCafes (searchAround ar net la lo r st) = allCafes st
          \<and> filteredCafes (searchAround ar net la lo r st) = filteredCafes st"
      by simp
  qed
  show ?thesis
    by (intro conjI) (rule c1 c2 c3 c4 c5 c6 c7 c8 c9)+
qed

lemma netDown_errors:
  "primaryError netDown la lo r = Some NetworkError" "loadFallbackCafes netDown = Inl NetworkError"
  by (simp_all add: primaryError_def fetchOverpassCafes_def loadFallbackCafes_def netDown_def)

lemma netEmptyPrimary_answers:
  "primaryError netEmptyPrimary la lo r = Some NoOverpassResults"
  "loadFallbackCafes netEmptyPrimary = Inr [fallbackCafe itemX]"
  by (simp_all add: primaryError_def fetchOverpassCafes_def loadFallbackCafes_def
        netEmptyPrimary_def normalizeAll_def nullish_def)

lemma renderable_itemX: "list_all renderable [fallbackCafe itemX]"
  by (simp add: renderable_def fallbackCafe_def itemX_def Math_round_def)

lemma normalizeAll_way: "normalizeAll [wayWithCenter] = [cafeWay]"
  by (simp add: normalizeAll_def normalizeElement_def latLng_of_def wayWithCenter_def
        truthy_num_def nullish_def str_or_def String_int_def decimal_42 cafeWay_def)

lemma netWayAnswer_answers:
  "fetchOverpassCafes netWayAnswer la lo r = Inr [cafeWay]"
  "loadFallbackCafes netWayAnswer = Inr [fallbackCafe itemX]"
  by (simp_all add: fetchOverpassCafes_def loadFallbackCafes_def netWayAnswer_def nullish_def
        normalizeAll_way)

text \<open>
  An Overpass answer that holds a way ends the primary attempt with the exception of
  \<^verbatim>\<open>L.marker\<close>, so the fallback file is shown instead.
\<close>

lemma tryOverpass_way: "fst (tryOverpass ar netWayAnswer la lo r st) = Some InvalidLatLng"
proof -
  have m: "markerFor u (withDistance ar la lo cafeWay) = Inl InvalidLatLng" for u
    by (simp add: markerFor_def popupFor_def stars_def withDistance_def cafeWay_def)
  have a: "attachDistances ar [cafeWay] la lo = [withDistance ar la lo cafeWay]"
    by (simp add: attachDistances_def Array_sort_def)
  show ?thesis
    by (simp add: tryOverpass_def netWayAnswer_answers a Let_def updateUI_def renderMarkers_def m)
qed

theorem searchAround_fallback_policy_witness:
  "events (searchAround exactArith netDown (25 / 2) (155 / 2) 1000 freshApp)
       = [FetchOverpass (25 / 2) (155 / 2) 1000, ConsoleWarn NetworkError, FetchFallback,
          ConsoleError NetworkError]
   \<and> resultSummary (searchAround exactArith netDown (25 / 2) (155 / 2) 1000 freshApp)
       = ''Could not load cafes.''
   \<and> allCafes (searchAround exactArith netDown (25 / 2) (155 / 2) 1000 freshApp) = []
   \<and> events (searchAround exactArith netEmptyPrimary (25 / 2) (155 / 2) 1000 freshApp)
       = [FetchOverpass (25 / 2) (155 / 2) 1000, ConsoleWarn NoOverpassResults, FetchFallback]
   \<and> resultSummary (searchAround exactArith netEmptyPrimary (25 / 2) (155 / 2) 1000 freshApp)
       = ''Showing fallback cafes''
   \<and> allCafes (searchAround exactArith netEmptyPrimary (25 / 2) (155 / 2) 1000 freshApp)
       = attachDistances exactArith [fallbackCafe itemX] (25 / 2) (155 / 2)
   \<and> events (searchAround exactArith netWayAnswer (25 / 2) (155 / 2) 1000 freshApp)
       = [FetchOverpass (25 / 2) (155 / 2) 1000, ConsoleWarn InvalidLatLng, FetchFallback]
   \<and> allCafes (searchAround exactArith netWayAnswer (25 / 2) (155 / 2) 1000 freshApp)
       = attachDistances exactArith [fallbackCafe itemX] (25 / 2) (155 / 2)"
proof -
  have e: "events freshApp = []" "allCafes freshApp = []"
    by (simp_all add: freshApp_def)
  note down = searchAround_fallback_policy [of exactArith netDown "25 / 2" "155 / 2" 1000 freshApp]
  note empty =
    searchAround_fallback_policy [of exactArith netEmptyPrimary "25 / 2" "155 / 2" 1000 freshApp]
  note way =
    searchAround_fallback_policy [of exactArith netWayAnswer "25 / 2" "155 / 2" 1000 freshApp]
  have d1: "fst (tryOverpass exactArith netDown (25 / 2) (155 / 2) 1000 freshApp) = Some NetworkError"
    using down netDown_errors(1) [of "25 / 2" "155 / 2" 1000] by blast
  have d2: "events (searchAround exactArith netDown (25 / 2) (155 / 2) 1000 freshApp)
       = events freshApp @ [FetchOverpass (25 / 2) (155 / 2) 1000, ConsoleWarn NetworkError,
                            FetchFallback, ConsoleError NetworkError]
     \<and> resultSummary (searchAround exactArith netDown (25 / 2) (155 / 2) 1000 freshApp)
       = ''Could not load cafes.''"
    using down d1 netDown_errors(2) by blast
  have d3: "allCafes (searchAround exactArith netDown (25 / 2) (155 / 2) 1000 freshApp)
       = allCafes freshApp"
    using down netDown_errors(1) [of "25 / 2" "155 / 2" 1000] netDown_errors(2) by blast
  have e1: "fst (tryOverpass exactArith netEmptyPrimary (25 / 2) (155 / 2) 1000 freshApp)
       = Some NoOverpassResults"
    using empty netEmptyPrimary_answers(1) [of "25 / 2" "155 / 2" 1000] by blast
  have e2: "allCafes (searchAround exactArith netEmptyPrimary (25 / 2) (155 / 2) 1000 freshApp)
       = attachDistances exactArith [fallbackCafe itemX] (25 / 2) (155 / 2)
     \<and> events (searchAround exactArith netEmptyPrimary (25 / 2) (155 / 2) 1000 freshApp)
       = events freshApp @ [FetchOverpass (25 / 2) (155 / 2) 1000, ConsoleWarn NoOverpassResults,
                            FetchFallback]
     \<and> resultSummary (searchAround exactArith netEmptyPrimary (25 / 2) (155 / 2) 1000 freshApp)
       = ''Showing fallback cafes''"
    using empty e1 netEmptyPrimary_answers(2) renderable_itemX by blast
  have w1: "fst (tryOverpass exactArith netWayAnswer (25 / 2) (155 / 2) 1000 freshApp)
       = Some InvalidLatLng"
    by (rule tryOverpass_way)
  have w2: "allCafes (searchAround exactArith netWayAnswer (25 / 2) (155 / 2) 1000 freshApp)
       = attachDistances exactArith [fallbackCafe itemX] (25 / 2) (155 / 2)
     \<and> events (searchAround exactArith netWayAnswer (25 / 2) (155 / 2) 1000 freshApp)
       = events freshApp @ [FetchOverpass (25 / 2) (155 / 2) 1000, ConsoleWarn InvalidLatLng,
                            FetchFallback]"
    using way w1 netWayAnswer_answers(2) renderable_itemX by blast
  from d2 d3 e2 w2 show ?thesis
    by (simp add: e)
qed

section \<open>The filtered view\<close>

lemma spec_filter_matches:
  "spec_filter cafes query =
     (if toLowerCase (trim query) = [] then cafes
      else filter (matchesQuery (toLowerCase (trim query))) cafes)"
proof -
  have "matchesQuery q = (\<lambda>c. occurs_in q (toLowerCase (case name c of None \<Rightarrow> [] | Some n \<Rightarrow> n))
                        \<or> occurs_in q (toLowerCase (area c)))" for q
    by (rule ext) (rule matchesQuery_occurs)
  then show ?thesis
    by (simp only: spec_filter_def Let_def)
qed

text \<open>
  \<^verbatim>\<open>handleSearchInput\<close> ends without an exception exactly when every record it is to
  show can be rendered, and then the page shows the records of the filtered list.
\<close>

lemma after_updateUI:
  "fst (case updateUI cs ''search'' st of
          (Some e, st1) \<Rightarrow> (Some e, st1)
        | (None, st1) \<Rightarrow> (None, setSummary (t st1) st1)) = fst (updateUI cs ''search'' st)
   \<and> (fst (updateUI cs ''search'' st) = None \<longrightarrow>
         showing (snd (case updateUI cs ''search'' st of
                         (Some e, st1) \<Rightarrow> (Some e, st1)
                       | (None, st1) \<Rightarrow> (None, setSummary (t st1) st1))) cs)"
proof -
  obtain e st1 where u: "updateUI cs ''search'' st = (e, st1)"
    by (cases "updateUI cs ''search'' st") blast
  with updateUI_showing [of cs "''search''" st] show ?thesis
    by (cases e) (simp_all add: showing_summary)
qed

lemma handleSearchInput_outcome:
  "(fst (handleSearchInput st) = None
      \<longleftrightarrow> list_all renderable (filteredCafes (snd (handleSearchInput st))))
   \<and> (fst (handleSearchInput st) = None \<longrightarrow>
         showing (snd (handleSearchInput st)) (filteredCafes (snd (handleSearchInput st))))"
proof (cases "toLowerCase (trim (searchInput_value st)) = []")
  case True
  then have f: "filteredCafes (snd (handleSearchInput st)) = allCafes st"
    by (simp add: filteredCafes_handleSearchInput)
  from True after_updateUI [where cs = "allCafes st" and st = st]
       updateUI_renderable [of "allCafes st" "''search''" st]
  show ?thesis
    by (simp add: f) (simp add: handleSearchInput_def)
next
  case False
  let ?ms = "filter (matchesQuery (toLowerCase (trim (searchInput_value st)))) (allCafes st)"
  from False have f: "filteredCafes (snd (handleSearchInput st)) = ?ms"
    by (simp add: filteredCafes_handleSearchInput)
  from False after_updateUI [where cs = ?ms and st = st] updateUI_renderable [of ?ms "''search''" st]
  show ?thesis
    by (simp add: f) (simp add: handleSearchInput_def Let_def)
qed

lemma decimal_7: "decimal 7 = ''7''"
  by code_simp

lemma lower_latte:
  "toLowerCase (trim ''latte'') = ''latte''" "toLowerCase ''Alpha'' = ''alpha''"
  "toLowerCase [] = []"
  by code_simp+

lemma normalizeAll_nodeEl:
  "normalizeAll [nodeEl] =
     [\<lparr>cid = ''7'', name = Some ''Alpha'', area = [], address = [], contact = [],
       lat = Some (25 / 2), lng = Some (155 / 2), rating = None, distanceMeters = None\<rparr>]"
  by (simp add: normalizeAll_def normalizeElement_def latLng_of_def nodeEl_def
        truthy_num_def nullish_def str_or_def String_int_def decimal_7)

lemma netOneNode_fetch:
  "fetchOverpassCafes netOneNode la lo r = Inr (normalizeAll [nodeEl])"
  by (simp add: fetchOverpassCafes_def netOneNode_def nullish_def)

lemma renderable_nodeEl: "list_all renderable (normalizeAll [nodeEl])"
  by (simp add: normalizeAll_nodeEl renderable_def)

lemma attachDistances_single: "attachDistances ar [c] la lo = [withDistance ar la lo c]"
  by (simp add: attachDistances_def Array_sort_def)

lemma searchAround_fetched:
  assumes f: "fetchOverpassCafes net la lo r = Inr cafes" and ne: "cafes \<noteq> []"
    and rn: "list_all renderable cafes"
  shows "allCafes (searchAround ar net la lo r st) = attachDistances ar cafes la lo
       \<and> filteredCafes (searchAround ar net la lo r st) = attachDistances ar cafes la lo
       \<and> showing (searchAround ar net la lo r st) (attachDistances ar cafes la lo)"
proof -
  from tryOverpass_fetched [OF f ne, of ar st] rn
  have t: "fst (tryOverpass ar net la lo r st) = None"
    "allCafes (snd (tryOverpass ar net la lo r st)) = attachDistances ar cafes la lo"
    "filteredCafes (snd (tryOverpass ar net la lo r st)) = attachDistances ar cafes la lo"
    "showing (snd (tryOverpass ar net la lo r st)) (attachDistances ar cafes la lo)"
    by simp_all
  then show ?thesis
    by (simp add: searchAround_done showSpinner_keeps showing_spinner)
qed

lemma searchAround_changes:
  "filteredCafes (searchAround ar net la lo r st) = allCafes (searchAround ar net la lo r st)
   \<or> (allCafes (searchAround ar net la lo r st) = allCafes st
      \<and> filteredCafes (searchAround ar net la lo r st) = filteredCafes st)"
proof (cases "fst (tryOverpass ar net la lo r st)")
  case None
  then show ?thesis
    using tryOverpass_changes [of ar net la lo r st]
    by (auto simp: searchAround_done showSpinner_keeps)
next
  case (Some err)
  show ?thesis
  proof (cases "loadFallbackCafes net")
    case (Inl e2)
    from searchAround_fallback_fails [OF Some Inl] tryOverpass_changes [of ar net la lo r st]
    show ?thesis by auto
  next
    case (Inr fb)
    from searchAround_fallback_loaded [OF Some Inr] show ?thesis by simp
  qed
qed

lemma searchAround_netOneNode:
  "allCafes (searchAround ar netOneNode la lo r st) = attachDistances ar (normalizeAll [nodeEl]) la lo"
  "filteredCafes (searchAround ar netOneNode la lo r st)
     = attachDistances ar (normalizeAll [nodeEl]) la lo"
  "showing (searchAround ar netOneNode la lo r st) (attachDistances ar (normalizeAll [nodeEl]) la lo)"
  using searchAround_fetched [OF netOneNode_fetch _ renderable_nodeEl, of ar la lo r st]
  by (simp_all add: normalizeAll_nodeEl)

text \<open>
  Claim C9 as stated fails after a fetch. With \<^verbatim>\<open>latte\<close> typed in the search box, a
  successful Overpass answer holding one cafe named \<^verbatim>\<open>Alpha\<close> is shown in full, although
  no record matches the query. The arithmetic plays no part in it: the lemmas used hold
  for every one.
\<close>

theorem fetch_ignores_query_counterexample:
  "filteredCafes (searchAround exactArith netOneNode (25 / 2) (155 / 2) 1000 appTyped)
     \<noteq> spec_filter (allCafes (searchAround exactArith netOneNode (25 / 2) (155 / 2) 1000 appTyped))
          (searchInput_value (searchAround exactArith netOneNode (25 / 2) (155 / 2) 1000 appTyped))
   \<and> cafeListEl (searchAround exactArith netOneNode (25 / 2) (155 / 2) 1000 appTyped)
       = [CardEl ''7'']"
proof -
  let ?st = "searchAround exactArith netOneNode (25 / 2) (155 / 2) 1000 appTyped"
  have "filteredCafes ?st \<noteq> spec_filter (allCafes ?st) (searchInput_value ?st)"
    by (simp add: searchAround_netOneNode searchAround_searchInput normalizeAll_nodeEl
          attachDistances_single spec_filter_matches appTyped_def lower_latte matchesQuery_def
          withDistance_def str_or_def)
  moreover have "cafeListEl ?st = [CardEl ''7'']"
    using searchAround_netOneNode(3) [of exactArith "25 / 2" "155 / 2" 1000 appTyped]
    by (simp add: showing_def listFor_def normalizeAll_nodeEl attachDistances_single
          withDistance_def)
  ultimately show ?thesis by blast
qed

text \<open>
  Claim C9, amended. After a search-input change the filtered list is the subset of the
  canonical list that matches the query, and the canonical list itself when the trimmed
  query is empty; list and markers show it when every record in it can be rendered, and
  otherwise the handler ends with an exception. After a fetch that replaces the canonical
  list, from Overpass or from the fallback file, and renders it, the filtered list is the
  whole new canonical list, list and markers show it, whatever the query, which the fetch
  leaves in the search box. A fetch either leaves both lists as they were or leaves the
  filtered list equal to the canonical one.
\<close>

theorem filtered_view_after_search_and_fetch:
  "allCafes (snd (handleSearchInput st)) = allCafes st
   \<and> searchInput_value (snd (handleSearchInput st)) = searchInput_value st
   \<and> filteredCafes (snd (handleSearchInput st))
       = spec_filter (allCafes (snd (handleSearchInput st)))
           (searchInput_value (snd (handleSearchInput st)))
   \<and> (toLowerCase (trim (searchInput_value st)) = [] \<longrightarrow>
         filteredCafes (snd (handleSearchInput st)) = allCafes (snd (handleSearchInput st)))
   \<and> (fst (handleSearchInput st) = None
         \<longleftrightarrow> list_all renderable (filteredCafes (snd (handleSearchInput st))))
   \<and> (fst (handleSearchInput st) = None \<longrightarrow>
         showing (snd (handleSearchInput st)) (filteredCafes (snd (handleSearchInput st))))
   \<and> searchInput_value (searchAround ar net la lo r st) = searchInput_value st
   \<and> (\<forall>cafes. fetchOverpassCafes net la lo r = Inr cafes \<and> cafes \<noteq> []
                \<and> list_all renderable cafes \<longrightarrow>
         allCafes (searchAround ar net la lo r st) = attachDistances ar cafes la lo
         \<and> filteredCafes (searchAround ar net la lo r st) = allCafes (searchAround ar net la lo r st)
         \<and> showing (searchAround ar net la lo r st) (allCafes (searchAround ar net la lo r st)))
   \<and> (\<forall>err fb. fst (tryOverpass ar net la lo r st) = Some err
                \<and> loadFallbackCafes net = Inr fb \<and> list_all renderable fb \<longrightarrow>
         allCafes (searchAround ar net la lo r st) = attachDistances ar fb la lo
         \<and> filteredCafes (searchAround ar net la lo r st) = allCafes (searchAround ar net la lo r st)
         \<and> showing (searchAround ar net la lo r st) (allCafes (searchAround ar net la lo r st)))
   \<and> (filteredCafes (searchAround ar net la lo r st) = allCafes (searchAround ar net la lo r st)
      \<or> (allCafes (searchAround ar net la lo r st) = allCafes st
         \<and> filteredCafes (searchAround ar net la lo r st) = filteredCafes st))"
proof -
  have c1: "allCafes (snd (handleSearchInput st)) = allCafes st"
    and c2: "searchInput_value (snd (handleSearchInput st)) = searchInput_value st"
    by (simp_all add: handleSearchInput_keeps)
  have c3: "filteredCafes (snd (handleSearchInput st))
       = spec_filter (allCafes (snd (handleSearchInput st)))
           (searchInput_value (snd (handleSearchInput st)))"
    by (simp only: handleSearchInput_keeps handleSearchInput_spec)
  have c4: "toLowerCase (trim (searchInput_value st)) = [] \<longrightarrow>
         filteredCafes (snd (handleSearchInput st)) = allCafes (snd (handleSearchInput st))"
    by (simp add: handleSearchInput_keeps filteredCafes_handleSearchInput)
  have c5: "fst (handleSearchInput st) = None
         \<longleftrightarrow> list_all renderable (filteredCafes (snd (handleSearchInput st)))"
    and c6: "fst (handleSearchInput st) = None \<longrightarrow>
         showing (snd (handleSearchInput st)) (filteredCafes (snd (handleSearchInput st)))"
    using handleSearchInput_outcome [of st] by blast+
  have c7: "searchInput_value (searchAround ar net la lo r st) = searchInput_value st"
    by (rule searchAround_searchInput)
  have c8: "\<forall>cafes. fetchOverpassCafes net la lo r = Inr cafes \<and> cafes \<noteq> []
                \<and> list_all renderable cafes \<longrightarrow>
         allCafes (searchAround ar net la lo r st) = attachDistances ar cafes la lo
         \<and> filteredCafes (searchAround ar net la lo r st) = allCafes (searchAround ar net la lo r st)
         \<and> showing (searchAround ar net la lo r st) (allCafes (searchAround ar net la lo r st))"
  proof (intro allI impI)
    fix cafes
    assume "fetchOverpassCafes net la lo r = Inr cafes \<and> cafes \<noteq> [] \<and> list_all renderable cafes"
    then have "fetchOverpassCafes net la lo r = Inr cafes" "cafes \<noteq> []" "list_all renderable cafes"
      by simp_all
    from searchAround_fetched [OF this, of ar st]
    show "allCafes (searchAround ar net la lo r st) = attachDistances ar cafes la lo
         \<and> filteredCafes (searchAround ar net la lo r st) = allCafes (searchAround ar net la lo r st)
         \<and> showing (searchAround ar net la lo r st) (allCafes (searchAround ar net la lo r st))"
      by simp
  qed
  have c9: "\<forall>err fb. fst (tryOverpass ar net la lo r st) = Some err
                \<and> loadFallbackCafes net = Inr fb \<and> list_all renderable fb \<longrightarrow>
         allCafes (searchAround ar net la lo r st) = attachDistances ar fb la lo
         \<and> filteredCafes (searchAround ar net la lo r st) = allCafes (searchAround ar net la lo r st)
         \<and> showing (searchAround ar net la lo r st) (allCafes (searchAround ar net la lo r st))"
  proof (intro allI impI)
    fix err fb
    assume a: "fst (tryOverpass ar net la lo r st) = Some err
                \<and> loadFallbackCafes net = Inr fb \<and> list_all renderable fb"
    then have "fst (tryOverpass ar net la lo r st) = Some err" "loadFallbackCafes net = Inr fb"
      by simp_all
    from searchAround_fallback_loaded [OF this] a
    show "allCafes (searchAround ar net la lo r st) = attachDistances ar fb la lo
         \<and> filteredCafes (searchAround ar net la lo r st) = allCafes (searchAround ar net la lo r st)
         \<and> showing (searchAround ar net la lo r st) (allCafes (searchAround ar net la lo r st))"
      by simp
  qed
  have c10: "filteredCafes (searchAround ar net la lo r st) = allCafes (searchAround ar net la lo r st)
      \<or> (allCafes (searchAround ar net la lo r st) = allCafes st
         \<and> filteredCafes (searchAround ar net la lo r st) = filteredCafes st)"
    by (rule searchAround_changes)
  show ?thesis
    by (intro conjI) (rule c1 c2 c3 c4 c5 c6 c7 c8 c9 c10)+
qed

theorem filtered_view_after_search_and_fetch_witness:
  "searchInput_value (searchAround exactArith netOneNode (25 / 2) (155 / 2) 1000 appTyped) = ''latte''
   \<and> allCafes (searchAround exactArith netOneNode (25 / 2) (155 / 2) 1000 appTyped)
       = attachDistances exactArith (normalizeAll [nodeEl]) (25 / 2) (155 / 2)
   \<and> filteredCafes (searchAround exactArith netOneNode (25 / 2) (155 / 2) 1000 appTyped)
       = allCafes (searchAround exactArith netOneNode (25 / 2) (155 / 2) 1000 appTyped)
   \<and> showing (searchAround exactArith netOneNode (25 / 2) (155 / 2) 1000 appTyped)
       (allCafes (searchAround exactArith netOneNode (25 / 2) (155 / 2) 1000 appTyped))
   \<and> allCafes (searchAround exactArith netWayAnswer (25 / 2) (155 / 2) 1000 appTyped)
       = attachDistances exactArith [fallbackCafe itemX] (25 / 2) (155 / 2)
   \<and> showing (searchAround exactArith netWayAnswer (25 / 2) (155 / 2) 1000 appTyped)
       (allCafes (searchAround exactArith netWayAnswer (25 / 2) (155 / 2) 1000 appTyped))
   \<and> fst (handleSearchInput appSearching) = None
   \<and> filteredCafes (snd (handleSearchInput appSearching)) = [cafeA, cafeB]
   \<and> showing (snd (handleSearchInput appSearching)) [cafeA, cafeB]
   \<and> filteredCafes (snd (handleSearchInput freshApp)) = allCafes (snd (handleSearchInput freshApp))"
proof -
  note one =
    filtered_view_after_search_and_fetch [of appTyped exactArith netOneNode "25 / 2" "155 / 2" 1000]
  note way =
    filtered_view_after_search_and_fetch [of appTyped exactArith netWayAnswer "25 / 2" "155 / 2" 1000]
  note srch = filtered_view_after_search_and_fetch [of appSearching exactArith netDown 0 0 0]
  note fresh = filtered_view_after_search_and_fetch [of freshApp exactArith netDown 0 0 0]
  have f: "fetchOverpassCafes netOneNode (25 / 2) (155 / 2) 1000 = Inr (normalizeAll [nodeEl])
         \<and> normalizeAll [nodeEl] \<noteq> [] \<and> list_all renderable (normalizeAll [nodeEl])"
    by (simp add: netOneNode_fetch renderable_nodeEl) (simp add: normalizeAll_nodeEl)
  have q: "searchInput_value appTyped = ''latte''"
    by (simp add: appTyped_def)
  from one q have a1: "searchInput_value
      (searchAround exactArith netOneNode (25 / 2) (155 / 2) 1000 appTyped) = ''latte''"
    by simp
  from one f have a2: "allCafes (searchAround exactArith netOneNode (25 / 2) (155 / 2) 1000 appTyped)
       = attachDistances exactArith (normalizeAll [nodeEl]) (25 / 2) (155 / 2)
     \<and> filteredCafes (searchAround exactArith netOneNode (25 / 2) (155 / 2) 1000 appTyped)
       = allCafes (searchAround exactArith netOneNode (25 / 2) (155 / 2) 1000 appTyped)
     \<and> showing (searchAround exactArith netOneNode (25 / 2) (155 / 2) 1000 appTyped)
       (allCafes (searchAround exactArith netOneNode (25 / 2) (155 / 2) 1000 appTyped))"
    by blast
  have w: "fst (tryOverpass exactArith netWayAnswer (25 / 2) (155 / 2) 1000 appTyped)
             = Some InvalidLatLng
         \<and> loadFallbackCafes netWayAnswer = Inr [fallbackCafe itemX]
         \<and> list_all renderable [fallbackCafe itemX]"
    using tryOverpass_way [of exactArith "25 / 2" "155 / 2" 1000 appTyped]
          netWayAnswer_answers(2) renderable_itemX
    by blast
  from way w have a3: "allCafes (searchAround exactArith netWayAnswer (25 / 2) (155 / 2) 1000 appTyped)
       = attachDistances exactArith [fallbackCafe itemX] (25 / 2) (155 / 2)
     \<and> showing (searchAround exactArith netWayAnswer (25 / 2) (155 / 2) 1000 appTyped)
       (allCafes (searchAround exactArith netWayAnswer (25 / 2) (155 / 2) 1000 appTyped))"
    by blast
  have fs: "filteredCafes (snd (handleSearchInput appSearching)) = [cafeA, cafeB]"
    by (simp add: filteredCafes_handleSearchInput appSearching_def lower_alpha sample_matches)
  have rn: "list_all renderable [cafeA, cafeB]"
    by (simp add: renderable_def cafeA_def cafeB_def)
  from srch have k: "(fst (handleSearchInput appSearching) = None)
         = list_all renderable (filteredCafes (snd (handleSearchInput appSearching)))"
    by blast
  have a4: "fst (handleSearchInput appSearching) = None"
    by (simp only: k fs rn)
  from srch a4 have "showing (snd (handleSearchInput appSearching))
                       (filteredCafes (snd (handleSearchInput appSearching)))"
    by blast
  then have a5: "showing (snd (handleSearchInput appSearching)) [cafeA, cafeB]"
    by (simp only: fs)
  have e: "toLowerCase (trim (searchInput_value freshApp)) = []"
    by (simp add: freshApp_def lower_latte trim_def)
  from fresh e have a6:
    "filteredCafes (snd (handleSearchInput freshApp)) = allCafes (snd (handleSearchInput freshApp))"
    by blast
  from a1 a2 a3 a4 a5 a6 fs show ?thesis
    by blast
qed

end
